theory Spec2Isabelle
  imports Complex_Main "HOL-Library.Char_ord" "HOL-Library.List_Lexorder" "HOL-Library.Product_Lexorder"
begin

section \<open>Values of the tables\<close>

text \<open>
  The program keeps two pandas tables, \<^verbatim>\<open>books.csv\<close> (the catalog) and
  \<^verbatim>\<open>reading.csv\<close> (the reading log). A missing cell is pandas' NaN or NaT; it is
  \<open>None\<close> in a column of strings, dates or integers, and \<open>NaN\<close> in a column whose cells
  hold values of several Python types: the columns the program fills with text, integers
  and floats, and the two title columns, which \<^verbatim>\<open>pd.read_csv\<close> reads as numbers when
  every title of the file is a number.

  A \<^verbatim>\<open>datetime.date\<close> is its proleptic Gregorian ordinal (\<^verbatim>\<open>date.toordinal()\<close>), so
  that \<^verbatim>\<open>(finish - start).days\<close> is the difference of two integers. A Python
  \<^verbatim>\<open>float\<close> is the rational number it denotes.
\<close>

datatype py_error = ValueError | KeyError | IndexError | TypeError | EOFError

type_synonym date = int

datatype cell = NaN | PyStr string | PyInt int | PyFloat rat

section \<open>Reading time\<close>

text \<open>\<^verbatim>\<open>update_reading_time(start, finish)\<close>, lines 295-309.\<close>

definition update_reading_time :: "date option \<Rightarrow> date option \<Rightarrow> int option" where
  "update_reading_time start finish =
     (if start = None \<or> finish = None then None
      else Some ((the finish - the start) + 1))"

section \<open>Author names\<close>

text \<open>\<^verbatim>\<open>' '.join(parts)\<close> on a list of strings.\<close>

fun join_space :: "string list \<Rightarrow> string" where
  "join_space [] = []"
| "join_space [x] = x"
| "join_space (x # y # ys) = x @ '' '' @ join_space (y # ys)"

text \<open>\<^verbatim>\<open>generate_full_author(author_fn, author_mn, author_ln)\<close>, lines 127-143.\<close>

definition generate_full_author :: "string \<Rightarrow> string \<Rightarrow> string \<Rightarrow> string" where
  "generate_full_author author_fn author_mn author_ln =
     (if author_mn = '''' then join_space [author_fn, author_ln]
      else join_space [author_fn, author_mn, author_ln])"

section \<open>The two tables\<close>

text \<open>
  A row of \<^verbatim>\<open>books.csv\<close>, columns as in \<^verbatim>\<open>create_books_db\<close>. \<^verbatim>\<open>Length\<close>,
  \<^verbatim>\<open>Times Read\<close> and \<^verbatim>\<open>Rating\<close> hold what the program puts there: the text typed
  at a prompt (\<^verbatim>\<open>add_new_book\<close>), an \<^verbatim>\<open>int\<close> or a \<^verbatim>\<open>float\<close>.
\<close>

record book =
  Title :: cell
  Author :: "string option"
  Author_FN :: "string option"
  Author_MN :: "string option"
  Author_LN :: "string option"
  Length :: cell
  Times_Read :: cell
  Rating :: cell
  Genre :: "string option"

type_synonym books_db = "book list"

text \<open>
  A row of \<^verbatim>\<open>reading.csv\<close>, columns as in \<^verbatim>\<open>create_reading_db\<close> (\<open>rTitle\<close> and
  \<open>rRating\<close> are its \<^verbatim>\<open>Title\<close> and \<^verbatim>\<open>Rating\<close>). The reading log in memory is a
  DataFrame whose rows carry index labels: \<^verbatim>\<open>.loc[label, column]\<close> and
  \<^verbatim>\<open>drop(label)\<close> address a row by its label, not by its position.
\<close>

record reading =
  rTitle :: cell
  Start :: "date option"
  Finish :: "date option"
  Reading_Time :: "int option"
  rRating :: "int option"

type_synonym reading_db = "(int \<times> reading) list"

text \<open>\<^verbatim>\<open>pd.read_csv\<close> labels the rows \<open>0, 1, \<dots>\<close> (a RangeIndex);
  \<^verbatim>\<open>to_csv(index=False)\<close> writes the rows without their labels.\<close>

definition read_csv :: "reading list \<Rightarrow> reading_db" where
  "read_csv rows = zip (map int [0..<length rows]) rows"

definition to_csv :: "reading_db \<Rightarrow> reading list" where
  "to_csv db = map snd db"

section \<open>Library functions the program calls\<close>

text \<open>
  The coercions \<^verbatim>\<open>int(s)\<close>, \<^verbatim>\<open>float(s)\<close> and \<^verbatim>\<open>pd.to_datetime(s).date()\<close>, the
  mean of a column (\<^verbatim>\<open>Series.mean()\<close>, over its non-missing cells) and
  \<^verbatim>\<open>round(x, 1)\<close> belong to Python, numpy and pandas, not to the program. They are
  parameters of the model. \<open>to_date s = Inr None\<close> is \<^verbatim>\<open>pd.NaT\<close>.

  So is the passage of a table through its file. \<open>reread_books t\<close> is the table
  \<^verbatim>\<open>pd.read_csv\<close> returns for the \<^verbatim>\<open>books.csv\<close> that \<^verbatim>\<open>t.to_csv(..., index=False)\<close>
  wrote, and \<open>reread_reading\<close> the same for \<^verbatim>\<open>reading.csv\<close>, with the dates converted
  as in lines 498-499. Reading types every column anew: an empty text is a missing cell,
  a column of digit strings is a column of numbers (the length ``412'' typed at a prompt
  comes back as 412, and a catalog whose titles are all numbers comes back with titles
  that no typed title equals).
\<close>

record pylib =
  py_int :: "string \<Rightarrow> py_error + int"
  py_float :: "string \<Rightarrow> py_error + rat"
  to_date :: "string \<Rightarrow> py_error + date option"
  series_mean :: "int list \<Rightarrow> rat"
  round1 :: "rat \<Rightarrow> rat"
  reread_books :: "books_db \<Rightarrow> books_db"
  reread_reading :: "reading list \<Rightarrow> reading list"

section \<open>Catalog updates\<close>

text \<open>The six lines \<^verbatim>\<open>add_new_book\<close> reads with \<^verbatim>\<open>input()\<close>, in the order of its
  prompts.\<close>

record new_book_answers =
  ans_author_fn :: string
  ans_author_mn :: string
  ans_author_ln :: string
  ans_length :: string
  ans_rating :: string
  ans_genre :: string

text \<open>\<^verbatim>\<open>add_new_book(books_db, book_title)\<close>, lines 145-171. The appended row has no
  \<^verbatim>\<open>Times Read\<close> key, so that cell is NaN.\<close>

definition add_new_book :: "books_db \<Rightarrow> string \<Rightarrow> new_book_answers \<Rightarrow> books_db" where
  "add_new_book books_db book_title ans =
     books_db @
     [\<lparr>Title = PyStr book_title,
       Author = Some (generate_full_author (ans_author_fn ans) (ans_author_mn ans)
                        (ans_author_ln ans)),
       Author_FN = Some (ans_author_fn ans),
       Author_MN = Some (ans_author_mn ans),
       Author_LN = Some (ans_author_ln ans),
       Length = PyStr (ans_length ans),
       Times_Read = NaN,
       Rating = PyStr (ans_rating ans),
       Genre = Some (ans_genre ans)\<rparr>]"

text \<open>\<^verbatim>\<open>book_title in books_db['Title'].values\<close>.\<close>

definition title_in :: "string \<Rightarrow> books_db \<Rightarrow> bool" where
  "title_in book_title books_db = (PyStr book_title \<in> set (map Title books_db))"

text \<open>\<^verbatim>\<open>books_db.loc[books_db['Title'] == book_title, column] = value\<close>: the
  assignment \<open>f\<close> on every row whose title is \<open>book_title\<close>.\<close>

definition loc_title :: "books_db \<Rightarrow> string \<Rightarrow> (book \<Rightarrow> book) \<Rightarrow> books_db" where
  "loc_title books_db book_title f =
     map (\<lambda>b. if Title b = PyStr book_title then f b else b) books_db"

section \<open>The synchronizer\<close>

text \<open>A boolean filter selects the rows of a frame: \<^verbatim>\<open>reading_db.loc[row_filter]\<close>.\<close>

definition loc_mask :: "reading_db \<Rightarrow> bool list \<Rightarrow> reading_db" where
  "loc_mask db row_filter = map fst (filter snd (zip db row_filter))"

text \<open>
  \<^verbatim>\<open>update_reading_count(reading_db, db_directory, book_title)\<close>, lines 311-341. The
  function reads \<^verbatim>\<open>books.csv\<close> and writes it back: \<open>books_db\<close> is the table read and
  the result is the table written.
\<close>

definition update_reading_count ::
  "reading_db \<Rightarrow> books_db \<Rightarrow> string \<Rightarrow> new_book_answers \<Rightarrow> books_db" where
  "update_reading_count reading_db books_db book_title ans =
     (let title_filter = map (\<lambda>(l, e). rTitle e = PyStr book_title) reading_db;
          finish_filter = map (\<lambda>(l, e). Finish e \<noteq> None) reading_db;
          read_cnt = int (length (loc_mask reading_db
                       (map2 (\<and>) title_filter finish_filter)))
      in if title_in book_title books_db
         then loc_title books_db book_title (\<lambda>b. b\<lparr>Times_Read := PyInt read_cnt\<rparr>)
         else loc_title (add_new_book books_db book_title ans) book_title
                (\<lambda>b. b\<lparr>Times_Read := PyInt read_cnt\<rparr>))"

text \<open>The non-missing cells of a column, and \<^verbatim>\<open>Series.mean()\<close>: NaN (\<open>None\<close>) when
  the column has no non-missing cell.\<close>

fun dropna :: "'a option list \<Rightarrow> 'a list" where
  "dropna [] = []"
| "dropna (None # xs) = dropna xs"
| "dropna (Some x # xs) = x # dropna xs"

definition mean_skipna :: "pylib \<Rightarrow> int option list \<Rightarrow> rat option" where
  "mean_skipna lib col =
     (if dropna col = [] then None else Some (series_mean lib (dropna col)))"

text \<open>\<^verbatim>\<open>update_book_rating(reading_db, db_directory, book_title)\<close>, lines 343-375.\<close>

definition update_book_rating ::
  "pylib \<Rightarrow> reading_db \<Rightarrow> books_db \<Rightarrow> string \<Rightarrow> new_book_answers \<Rightarrow> books_db" where
  "update_book_rating lib reading_db books_db book_title ans =
     (let title_filter = map (\<lambda>(l, e). rTitle e = PyStr book_title) reading_db;
          avg_rating = mean_skipna lib
                         (map (\<lambda>(l, e). rRating e) (loc_mask reading_db title_filter));
          avg_rating = (case avg_rating of None \<Rightarrow> NaN
                        | Some m \<Rightarrow> PyFloat (round1 lib m))
      in if title_in book_title books_db
         then loc_title books_db book_title (\<lambda>b. b\<lparr>Rating := avg_rating\<rparr>)
         else loc_title (add_new_book books_db book_title ans) book_title
                (\<lambda>b. b\<lparr>Rating := avg_rating\<rparr>))"

section \<open>Editing the catalog\<close>

text \<open>The menu of \<^verbatim>\<open>edit_existing_book\<close> (\<^verbatim>\<open>prop_dict\<close>, lines 186-192); a number
  that is not a key raises KeyError.\<close>

datatype book_prop =
  Book_Title | Book_Author_FN | Book_Author_MN | Book_Author_LN | Book_Length | Book_Rating
  | Book_Genre

definition prop_dict_books :: "int \<Rightarrow> book_prop option" where
  "prop_dict_books k =
     (if k = 1 then Some Book_Title else if k = 2 then Some Book_Author_FN
      else if k = 3 then Some Book_Author_MN else if k = 4 then Some Book_Author_LN
      else if k = 5 then Some Book_Length else if k = 6 then Some Book_Rating
      else if k = 7 then Some Book_Genre else None)"

text \<open>Lines 207-214: the new value, coerced for \<^verbatim>\<open>Length\<close> and \<^verbatim>\<open>Rating\<close>, as the
  assignment to the chosen column of a row.\<close>

fun assign_book :: "pylib \<Rightarrow> book_prop \<Rightarrow> string \<Rightarrow> py_error + (book \<Rightarrow> book)" where
  "assign_book lib Book_Title new_value = Inr (\<lambda>b. b\<lparr>Title := PyStr new_value\<rparr>)"
| "assign_book lib Book_Author_FN new_value = Inr (\<lambda>b. b\<lparr>Author_FN := Some new_value\<rparr>)"
| "assign_book lib Book_Author_MN new_value = Inr (\<lambda>b. b\<lparr>Author_MN := Some new_value\<rparr>)"
| "assign_book lib Book_Author_LN new_value = Inr (\<lambda>b. b\<lparr>Author_LN := Some new_value\<rparr>)"
| "assign_book lib Book_Length new_value =
     (case py_int lib new_value of Inl e \<Rightarrow> Inl e
      | Inr n \<Rightarrow> Inr (\<lambda>b. b\<lparr>Length := PyInt n\<rparr>))"
| "assign_book lib Book_Rating new_value =
     (case py_float lib new_value of Inl e \<Rightarrow> Inl e
      | Inr x \<Rightarrow> Inr (\<lambda>b. b\<lparr>Rating := PyFloat x\<rparr>))"
| "assign_book lib Book_Genre new_value = Inr (\<lambda>b. b\<lparr>Genre := Some new_value\<rparr>)"

text \<open>The two lines \<^verbatim>\<open>edit_existing_book\<close> reads: the menu number and the new value.\<close>

record edit_book_answers =
  ans_book_prop :: string
  ans_book_value :: string

text \<open>
  \<^verbatim>\<open>edit_existing_book(books_db, book_title)\<close>, lines 173-231. \<^verbatim>\<open>.values[0]\<close> of an
  empty selection raises IndexError; \<^verbatim>\<open>' '.join\<close> of a list holding NaN (a missing
  first or last name) raises TypeError; a missing middle name counts as the empty string
  (line 224).
\<close>

definition edit_existing_book ::
  "pylib \<Rightarrow> books_db \<Rightarrow> string \<Rightarrow> edit_book_answers \<Rightarrow> py_error + books_db" where
  "edit_existing_book lib books_db book_title ans =
     (case py_int lib (ans_book_prop ans) of Inl e \<Rightarrow> Inl e
      | Inr k \<Rightarrow>
     (case prop_dict_books k of None \<Rightarrow> Inl KeyError
      | Some prop_to_update \<Rightarrow>
     (case assign_book lib prop_to_update (ans_book_value ans) of Inl e \<Rightarrow> Inl e
      | Inr assign \<Rightarrow>
     (let books_db = loc_title books_db book_title assign
      in if prop_to_update \<in> {Book_Author_FN, Book_Author_MN, Book_Author_LN}
         then (case filter (\<lambda>b. Title b = PyStr book_title) books_db of
                 [] \<Rightarrow> Inl IndexError
               | b # _ \<Rightarrow>
                   (let author_fn = Author_FN b;
                        author_mn = (case Author_MN b of None \<Rightarrow> '''' | Some m \<Rightarrow> m);
                        author_ln = Author_LN b
                    in case (author_fn, author_ln) of
                         (Some first_name, Some last_name) \<Rightarrow>
                           Inr (loc_title books_db book_title
                                  (\<lambda>b. b\<lparr>Author :=
                                     Some (generate_full_author first_name author_mn last_name)\<rparr>))
                       | _ \<Rightarrow> Inl TypeError))
         else Inr books_db))))"

text \<open>\<^verbatim>\<open>remove_existing_book(books_db, book_title)\<close>, lines 233-244.\<close>

definition remove_existing_book :: "books_db \<Rightarrow> string \<Rightarrow> books_db" where
  "remove_existing_book books_db book_title =
     filter (\<lambda>b. Title b \<noteq> PyStr book_title) books_db"

text \<open>
  \<^verbatim>\<open>sort_values\<close> on several columns is pandas' stable lexicographic sort, missing
  cells last in each column. A cell \<open>v\<close> sorts by \<open>na_last d v\<close>: present cells
  (\<open>False\<close>) before missing ones (\<open>True\<close>), strings in the order of Python's \<^verbatim>\<open><\<close>.
  A title sorts by \<open>cell_key\<close>: a title read as a number before a title that is text,
  numbers by their value.
\<close>

definition na_last :: "'a \<Rightarrow> 'a option \<Rightarrow> bool \<times> 'a" where
  "na_last d v = (case v of None \<Rightarrow> (True, d) | Some x \<Rightarrow> (False, x))"

definition cell_key :: "cell \<Rightarrow> bool \<times> bool \<times> rat \<times> string" where
  "cell_key c =
     (case c of NaN \<Rightarrow> (True, False, 0, [])
      | PyStr s \<Rightarrow> (False, True, 0, s)
      | PyInt n \<Rightarrow> (False, False, of_int n, [])
      | PyFloat x \<Rightarrow> (False, False, x, []))"

text \<open>Lines 288-290 of \<^verbatim>\<open>update_book_db\<close>:
  \<^verbatim>\<open>books_db.sort_values(by=['Author LN', 'Title'], ignore_index=True)\<close>.\<close>

definition book_sort_key :: "book \<Rightarrow> (bool \<times> string) \<times> (bool \<times> bool \<times> rat \<times> string)" where
  "book_sort_key b = (na_last [] (Author_LN b), cell_key (Title b))"

definition sort_books :: "books_db \<Rightarrow> books_db" where
  "sort_books books_db = sort_key book_sort_key books_db"

section \<open>Reading log updates\<close>

text \<open>\<^verbatim>\<open>frame.loc[label, column] = value\<close>: the assignment \<open>f\<close> on every row labelled
  \<open>label\<close>, and, when no row has that label, a new last row with that label, \<open>f\<close>
  applied to a row of missing cells (pandas' setting with enlargement).\<close>

definition nan_row :: reading where
  "nan_row = \<lparr>rTitle = NaN, Start = None, Finish = None, Reading_Time = None, rRating = None\<rparr>"

definition loc_set :: "reading_db \<Rightarrow> int \<Rightarrow> (reading \<Rightarrow> reading) \<Rightarrow> reading_db" where
  "loc_set db label f =
     (if label \<in> set (map fst db)
      then map (\<lambda>(l, r). if l = label then (l, f r) else (l, r)) db
      else db @ [(label, f nan_row)])"

text \<open>The rows \<^verbatim>\<open>frame.loc[label]\<close> selects.\<close>

definition loc_rows :: "reading_db \<Rightarrow> int \<Rightarrow> reading list" where
  "loc_rows db label = map snd (filter (\<lambda>(l, r). l = label) db)"

text \<open>\<^verbatim>\<open>frame.drop(label)\<close>: KeyError when no row has the label.\<close>

definition drop_label :: "reading_db \<Rightarrow> int \<Rightarrow> py_error + reading_db" where
  "drop_label db label =
     (if label \<in> set (map fst db) then Inr (filter (\<lambda>(l, r). l \<noteq> label) db)
      else Inl KeyError)"

text \<open>The menu of \<^verbatim>\<open>edit_reading_entry\<close> (\<^verbatim>\<open>prop_dict\<close>, lines 431-435).\<close>

datatype reading_prop = Reading_Title | Reading_Start | Reading_Finish | Reading_Rating

definition prop_dict_reading :: "int \<Rightarrow> reading_prop option" where
  "prop_dict_reading k =
     (if k = 1 then Some Reading_Title else if k = 2 then Some Reading_Start
      else if k = 3 then Some Reading_Finish else if k = 4 then Some Reading_Rating
      else None)"

text \<open>Lines 450-456: the new value, coerced for the dates and the rating, as the
  assignment to the chosen column of a row.\<close>

fun assign_reading :: "pylib \<Rightarrow> reading_prop \<Rightarrow> string \<Rightarrow> py_error + (reading \<Rightarrow> reading)" where
  "assign_reading lib Reading_Title new_value = Inr (\<lambda>r. r\<lparr>rTitle := PyStr new_value\<rparr>)"
| "assign_reading lib Reading_Start new_value =
     (case to_date lib new_value of Inl e \<Rightarrow> Inl e
      | Inr d \<Rightarrow> Inr (\<lambda>r. r\<lparr>Start := d\<rparr>))"
| "assign_reading lib Reading_Finish new_value =
     (case to_date lib new_value of Inl e \<Rightarrow> Inl e
      | Inr d \<Rightarrow> Inr (\<lambda>r. r\<lparr>Finish := d\<rparr>))"
| "assign_reading lib Reading_Rating new_value =
     (if new_value \<noteq> ''''
      then (case py_int lib new_value of Inl e \<Rightarrow> Inl e
            | Inr n \<Rightarrow> Inr (\<lambda>r. r\<lparr>rRating := Some n\<rparr>))
      else Inr (\<lambda>r. r\<lparr>rRating := None\<rparr>))"

text \<open>The three lines \<^verbatim>\<open>edit_reading_entry\<close> reads: the index, the menu number and
  the new value.\<close>

record edit_entry_answers =
  ans_index :: string
  ans_prop :: string
  ans_value :: string

text \<open>
  \<^verbatim>\<open>edit_reading_entry(reading_db, book_title)\<close>, lines 411-463. The function assigns
  into the caller's frame and returns it. \<^verbatim>\<open>book_title\<close> only filters what is
  printed. With several rows under one label, \<^verbatim>\<open>.loc[label, 'Start']\<close> is a Series,
  whose truth value (line 306) raises ValueError.
\<close>

definition edit_reading_entry ::
  "pylib \<Rightarrow> reading_db \<Rightarrow> string \<Rightarrow> edit_entry_answers \<Rightarrow> py_error + reading_db" where
  "edit_reading_entry lib reading_db book_title ans =
     (case py_int lib (ans_index ans) of Inl e \<Rightarrow> Inl e
      | Inr index_to_edit \<Rightarrow>
     (case py_int lib (ans_prop ans) of Inl e \<Rightarrow> Inl e
      | Inr k \<Rightarrow>
     (case prop_dict_reading k of None \<Rightarrow> Inl KeyError
      | Some prop_to_update \<Rightarrow>
     (case assign_reading lib prop_to_update (ans_value ans) of Inl e \<Rightarrow> Inl e
      | Inr assign \<Rightarrow>
     (let reading_db = loc_set reading_db index_to_edit assign
      in case loc_rows reading_db index_to_edit of
           [row] \<Rightarrow>
             (let new_time = update_reading_time (Start row) (Finish row)
              in Inr (loc_set reading_db index_to_edit (\<lambda>r. r\<lparr>Reading_Time := new_time\<rparr>)))
         | _ \<Rightarrow> Inl ValueError)))))"

text \<open>\<^verbatim>\<open>remove_reading_entry(reading_db, book_title)\<close>, lines 465-479.\<close>

definition remove_reading_entry ::
  "pylib \<Rightarrow> reading_db \<Rightarrow> string \<Rightarrow> string \<Rightarrow> py_error + reading_db" where
  "remove_reading_entry lib reading_db book_title ans =
     (case py_int lib ans of Inl e \<Rightarrow> Inl e
      | Inr index_to_remove \<Rightarrow> drop_label reading_db index_to_remove)"

text \<open>The three lines \<^verbatim>\<open>add_reading_entry\<close> reads.\<close>

record add_entry_answers =
  ans_start :: string
  ans_finish :: string
  ans_entry_rating :: string

text \<open>\<^verbatim>\<open>add_reading_entry(reading_db, book_title)\<close>, lines 378-409;
  \<^verbatim>\<open>append(..., ignore_index=True)\<close> labels the rows anew.\<close>

definition add_reading_entry ::
  "pylib \<Rightarrow> reading_db \<Rightarrow> string \<Rightarrow> add_entry_answers \<Rightarrow> py_error + reading_db" where
  "add_reading_entry lib reading_db book_title ans =
     (case to_date lib (ans_start ans) of Inl e \<Rightarrow> Inl e
      | Inr start_date \<Rightarrow>
     (case to_date lib (ans_finish ans) of Inl e \<Rightarrow> Inl e
      | Inr finish_date \<Rightarrow>
     (case (if ans_entry_rating ans \<noteq> ''''
            then map_sum id Some (py_int lib (ans_entry_rating ans)) else Inr None) of
        Inl e \<Rightarrow> Inl e
      | Inr rating \<Rightarrow>
          Inr (read_csv (to_csv reading_db @
                 [\<lparr>rTitle = PyStr book_title, Start = start_date, Finish = finish_date,
                   Reading_Time = update_reading_time start_date finish_date,
                   rRating = rating\<rparr>])))))"

text \<open>Lines 536-537 of \<^verbatim>\<open>update_reading_db\<close>:
  \<^verbatim>\<open>reading_db.sort_values(['Finish', 'Start'], na_position='last', inplace=True)\<close>.\<close>

definition reading_sort_key :: "int \<times> reading \<Rightarrow> (bool \<times> date) \<times> (bool \<times> date)" where
  "reading_sort_key = (\<lambda>(l, e). (na_last 0 (Finish e), na_last 0 (Start e)))"

definition sort_reading :: "reading_db \<Rightarrow> reading_db" where
  "sort_reading reading_db = sort_key reading_sort_key reading_db"

section \<open>A reading log update session\<close>

text \<open>
  The session works on the two files. \<open>books_csv\<close> and \<open>reading_csv\<close> are the tables
  last written to them; the program reads a file with \<^verbatim>\<open>pd.read_csv\<close>, that is through
  \<open>reread_books\<close> and \<open>reread_reading\<close>. \<open>calls\<close> is the history of the session: the
  calls that have returned, in order. An exception ends the session; every \<^verbatim>\<open>raise\<close>
  of the model comes before the first write, so a failed session leaves both files as
  they were.
\<close>

datatype call =
  Add_Reading_Entry | Edit_Reading_Entry | Remove_Reading_Entry
  | Update_Reading_Count string | Update_Book_Rating string
  | Sort_Values | To_Csv

record world =
  books_csv :: books_db
  reading_csv :: "reading list"
  calls :: "call list"

definition called :: "call \<Rightarrow> world \<Rightarrow> world" where
  "called c w = w\<lparr>calls := calls w @ [c]\<rparr>"

text \<open>\<^verbatim>\<open>update_reading_count\<close> and \<^verbatim>\<open>update_book_rating\<close> with their file:
  \<^verbatim>\<open>pd.read_csv(books_db_path)\<close> first (lines 330 and 365),
  \<^verbatim>\<open>books_db.to_csv(books_db_path, index=False)\<close> last (lines 341 and 375). The second
  function reads the file the first one wrote.\<close>

definition update_reading_count_file ::
  "pylib \<Rightarrow> reading_db \<Rightarrow> string \<Rightarrow> new_book_answers \<Rightarrow> world \<Rightarrow> world" where
  "update_reading_count_file lib reading_db book_title ans w =
     called (Update_Reading_Count book_title)
       (w\<lparr>books_csv :=
            update_reading_count reading_db (reread_books lib (books_csv w)) book_title ans\<rparr>)"

definition update_book_rating_file ::
  "pylib \<Rightarrow> reading_db \<Rightarrow> string \<Rightarrow> new_book_answers \<Rightarrow> world \<Rightarrow> world" where
  "update_book_rating_file lib reading_db book_title ans w =
     called (Update_Book_Rating book_title)
       (w\<lparr>books_csv :=
            update_book_rating lib reading_db (reread_books lib (books_csv w)) book_title
              ans\<rparr>)"

text \<open>
  \<^verbatim>\<open>prompt_for_title(db, update_mode)\<close>, lines 24-49, on the lines the user types at
  its prompts. In add mode the first line is the title. Otherwise the loop asks again
  until a line is a title of the table; when the lines run out before that, \<^verbatim>\<open>input()\<close>
  raises EOFError.
\<close>

fun prompt_for_title :: "cell list \<Rightarrow> int \<Rightarrow> string list \<Rightarrow> py_error + string" where
  "prompt_for_title titles update_mode [] = Inl EOFError"
| "prompt_for_title titles update_mode (book_title # rest) =
     (if update_mode = 1 then Inr book_title
      else if PyStr book_title \<in> set titles then Inr book_title
      else prompt_for_title titles update_mode rest)"

text \<open>What the user types in one session: the mode, the lines for the title prompt,
  the answer to ``edit an entry instead'', and the lines for the operation chosen and for
  a new catalog entry (one set for each synchronizer call).\<close>

record session_answers =
  ans_mode :: string
  ans_titles :: "string list"
  ans_switch :: string
  ans_edit :: edit_entry_answers
  ans_add :: add_entry_answers
  ans_remove :: string
  ans_book :: new_book_answers
  ans_book2 :: new_book_answers

text \<open>\<^verbatim>\<open>update_reading_db(db_directory)\<close>, lines 482-538. The mode is not checked: any
  mode other than 1 and 2 removes. Line 515 binds the frame \<^verbatim>\<open>edit_reading_entry\<close>
  returns to another name; the edit was made in the caller's frame, which the following
  lines use.\<close>

definition update_reading_db :: "pylib \<Rightarrow> world \<Rightarrow> session_answers \<Rightarrow> py_error + world" where
  "update_reading_db lib w ans =
     (let reading_db = read_csv (reread_reading lib (reading_csv w))
      in case py_int lib (ans_mode ans) of Inl e \<Rightarrow> Inl e
         | Inr update_mode \<Rightarrow>
        (case prompt_for_title (map (\<lambda>(l, e). rTitle e) reading_db) update_mode
                (ans_titles ans) of Inl e \<Rightarrow> Inl e
         | Inr book_title \<Rightarrow>
        (case
           (if update_mode = 1 then
              (if PyStr book_title \<in> set (map (\<lambda>(l, e). rTitle e) reading_db) then
                 (if ans_switch ans \<in> {''Y'', ''y''} then
                    (case edit_reading_entry lib reading_db book_title (ans_edit ans) of
                       Inl e \<Rightarrow> Inl e
                     | Inr reading_db \<Rightarrow>
                         (let w = called Edit_Reading_Entry w;
                              w = update_reading_count_file lib reading_db book_title (ans_book ans) w;
                              w = update_book_rating_file lib reading_db book_title (ans_book2 ans) w
                          in Inr (reading_db, w)))
                  else
                    (case add_reading_entry lib reading_db book_title (ans_add ans) of
                       Inl e \<Rightarrow> Inl e
                     | Inr reading_db \<Rightarrow>
                         (let w = called Add_Reading_Entry w;
                              w = update_reading_count_file lib reading_db book_title (ans_book ans) w;
                              w = update_book_rating_file lib reading_db book_title (ans_book2 ans) w
                          in Inr (reading_db, w))))
               else
                 (case add_reading_entry lib reading_db book_title (ans_add ans) of
                    Inl e \<Rightarrow> Inl e
                  | Inr reading_db \<Rightarrow>
                      (let w = called Add_Reading_Entry w;
                           w = update_reading_count_file lib reading_db book_title (ans_book ans) w;
                           w = update_book_rating_file lib reading_db book_title (ans_book2 ans) w
                       in Inr (reading_db, w))))
            else if update_mode = 2 then
              (case edit_reading_entry lib reading_db book_title (ans_edit ans) of
                 Inl e \<Rightarrow> Inl e
               | Inr reading_db \<Rightarrow>
                   (let w = called Edit_Reading_Entry w;
                        w = update_reading_count_file lib reading_db book_title (ans_book ans) w;
                        w = update_book_rating_file lib reading_db book_title (ans_book2 ans) w
                    in Inr (reading_db, w)))
            else
              (case remove_reading_entry lib reading_db book_title (ans_remove ans) of
                 Inl e \<Rightarrow> Inl e
               | Inr reading_db \<Rightarrow>
                   (let w = called Remove_Reading_Entry w;
                        w = update_reading_count_file lib reading_db book_title (ans_book ans) w;
                        w = update_book_rating_file lib reading_db book_title (ans_book2 ans) w
                    in Inr (reading_db, w)))) of
           Inl e \<Rightarrow> Inl e
         | Inr (reading_db, w) \<Rightarrow>
             (let reading_db = sort_reading reading_db;
                  w = called Sort_Values w;
                  w = called To_Csv (w\<lparr>reading_csv := to_csv reading_db\<rparr>)
              in Inr w))))"

section \<open>Creating the files\<close>

text \<open>A csv file is its header line and its records; the files of the data directory
  are a map from paths. \<^verbatim>\<open>os.path.isfile(path)\<close> is \<open>files path \<noteq> None\<close>.\<close>

datatype csv = Csv "string list" "string list list"

type_synonym files = "string \<Rightarrow> csv option"

text \<open>\<^verbatim>\<open>create_books_db(db_path)\<close>, lines 53-67, and
  \<^verbatim>\<open>create_reading_db(db_path)\<close>, lines 69-82.\<close>

definition create_books_db :: "string \<Rightarrow> files \<Rightarrow> files" where
  "create_books_db db_path files =
     (let book_db_cols = [''Title'', ''Author'', ''Author FN'', ''Author MN'',
                          ''Author LN'', ''Length'', ''Times Read'', ''Rating'', ''Genre'']
      in files(db_path \<mapsto> Csv book_db_cols []))"

definition create_reading_db :: "string \<Rightarrow> files \<Rightarrow> files" where
  "create_reading_db db_path files =
     (let book_db_cols = [''Title'', ''Start'', ''Finish'', ''Reading Time'', ''Rating'']
      in files(db_path \<mapsto> Csv book_db_cols []))"

text \<open>\<^verbatim>\<open>create_databases(force_overwrite, data_directory)\<close>, lines 84-123. Both
  \<^verbatim>\<open>isfile\<close> tests come before the first write.\<close>

definition create_databases :: "bool \<Rightarrow> string \<Rightarrow> files \<Rightarrow> files" where
  "create_databases force_overwrite data_directory files =
     (let books_db_path = data_directory @ ''/'' @ ''books.csv'';
          reading_db_path = data_directory @ ''/'' @ ''reading.csv'';
          books_db_exists = (files books_db_path \<noteq> None);
          reading_db_exists = (files reading_db_path \<noteq> None);
          files = (if books_db_exists \<and> \<not> force_overwrite then files
                   else if books_db_exists \<and> force_overwrite
                   then create_books_db books_db_path files
                   else create_books_db books_db_path files);
          files = (if reading_db_exists \<and> \<not> force_overwrite then files
                   else if reading_db_exists \<and> force_overwrite
                   then create_reading_db reading_db_path files
                   else create_reading_db reading_db_path files)
      in files)"

section \<open>An instance of the library for the examples\<close>

text \<open>
  The theorems below hold for every \<open>lib\<close>. The examples are evaluated at this
  instance, which accepts fewer answers than the library does: \<open>int\<close> and \<open>float\<close> of
  a string of decimal digits, \<open>to_datetime\<close> of the empty answer (NaT) and of a date
  written \<^verbatim>\<open>YYYY-MM-DD\<close>; it computes the mean and rounds to one decimal (halves to
  even) on exact rationals.
\<close>

definition digit :: "char \<Rightarrow> nat option" where
  "digit = map_of [(CHR ''0'', 0), (CHR ''1'', 1), (CHR ''2'', 2), (CHR ''3'', 3),
     (CHR ''4'', 4), (CHR ''5'', 5), (CHR ''6'', 6), (CHR ''7'', 7), (CHR ''8'', 8),
     (CHR ''9'', 9)]"

fun decimal :: "string \<Rightarrow> nat \<Rightarrow> nat option" where
  "decimal [] acc = Some acc"
| "decimal (c # cs) acc =
     (case digit c of None \<Rightarrow> None | Some d \<Rightarrow> decimal cs (10 * acc + d))"

definition digits_int :: "string \<Rightarrow> py_error + int" where
  "digits_int s =
     (if s = [] then Inl ValueError
      else case decimal s 0 of None \<Rightarrow> Inl ValueError | Some n \<Rightarrow> Inr (int n))"

text \<open>\<^verbatim>\<open>date(y, m, d).toordinal()\<close>, as in Python's \<^verbatim>\<open>datetime\<close> module.\<close>

definition is_leap :: "nat \<Rightarrow> bool" where
  "is_leap y = (y mod 4 = 0 \<and> (y mod 100 \<noteq> 0 \<or> y mod 400 = 0))"

definition days_in_month :: "nat \<Rightarrow> nat \<Rightarrow> nat" where
  "days_in_month y m =
     (if m = 2 \<and> is_leap y then 29
      else [31, 28, 31, 30, 31, 30, 31, 31, 30, 31, 30, 31] ! (m - 1))"

definition ymd2ord :: "nat \<Rightarrow> nat \<Rightarrow> nat \<Rightarrow> int" where
  "ymd2ord y m d =
     int ((y - 1) * 365 + (y - 1) div 4 - (y - 1) div 100 + (y - 1) div 400
          + sum_list (map (days_in_month y) [1..<m]) + d)"

definition iso_date :: "string \<Rightarrow> py_error + date option" where
  "iso_date s =
     (if s = [] then Inr None
      else if length s = 10 \<and> s ! 4 = CHR ''-'' \<and> s ! 7 = CHR ''-''
      then (case (decimal (take 4 s) 0, decimal (take 2 (drop 5 s)) 0,
                  decimal (drop 8 s) 0) of
              (Some y, Some m, Some d) \<Rightarrow>
                if 1 \<le> y \<and> 1 \<le> m \<and> m \<le> 12 \<and> 1 \<le> d \<and> d \<le> days_in_month y m
                then Inr (Some (ymd2ord y m d)) else Inl ValueError
            | _ \<Rightarrow> Inl ValueError)
      else Inl ValueError)"

definition exact_mean :: "int list \<Rightarrow> rat" where
  "exact_mean xs = of_int (sum_list xs) / of_nat (length xs)"

definition round_half_even :: "rat \<Rightarrow> int" where
  "round_half_even x =
     (let f = \<lfloor>x\<rfloor>; r = x - of_int f
      in if r < 1 / 2 then f else if 1 / 2 < r then f + 1
         else if even f then f else f + 1)"

text \<open>
  The instance reads a written table back as follows. An empty text is a missing cell. A
  column of cells (a title, a length, a count, a rating) in which every text is a string
  of digits becomes a column of numbers; any other column keeps its cells. This is what
  \<^verbatim>\<open>pd.read_csv\<close> does on the tables of the examples; it is not all that
  \<^verbatim>\<open>pd.read_csv\<close> does (pandas also reads the numbers of a column that holds other
  text back as text, and takes a few words such as \<^verbatim>\<open>NA\<close> for missing cells).
\<close>

definition numeric_text :: "cell \<Rightarrow> bool" where
  "numeric_text c = (case c of PyStr s \<Rightarrow> s = [] \<or> decimal s 0 \<noteq> None | _ \<Rightarrow> True)"

definition retype :: "bool \<Rightarrow> cell \<Rightarrow> cell" where
  "retype numeric c =
     (case c of
        PyStr s \<Rightarrow>
          if s = [] then NaN
          else if numeric then (case decimal s 0 of None \<Rightarrow> c | Some n \<Rightarrow> PyInt (int n))
          else c
      | _ \<Rightarrow> c)"

definition blank :: "string option \<Rightarrow> string option" where
  "blank v = (if v = Some [] then None else v)"

definition example_reread_books :: "books_db \<Rightarrow> books_db" where
  "example_reread_books t =
     (let numeric_title = list_all (\<lambda>b. numeric_text (Title b)) t;
          numeric_length = list_all (\<lambda>b. numeric_text (Length b)) t;
          numeric_count = list_all (\<lambda>b. numeric_text (Times_Read b)) t;
          numeric_rating = list_all (\<lambda>b. numeric_text (Rating b)) t
      in map (\<lambda>b. \<lparr>Title = retype numeric_title (Title b),
                     Author = blank (Author b),
                     Author_FN = blank (Author_FN b),
                     Author_MN = blank (Author_MN b),
                     Author_LN = blank (Author_LN b),
                     Length = retype numeric_length (Length b),
                     Times_Read = retype numeric_count (Times_Read b),
                     Rating = retype numeric_rating (Rating b),
                     Genre = blank (Genre b)\<rparr>) t)"

definition example_reread_reading :: "reading list \<Rightarrow> reading list" where
  "example_reread_reading t =
     (let numeric_title = list_all (\<lambda>e. numeric_text (rTitle e)) t
      in map (\<lambda>e. e\<lparr>rTitle := retype numeric_title (rTitle e)\<rparr>) t)"

definition example_lib :: pylib where
  "example_lib =
     \<lparr>py_int = digits_int,
      py_float = (\<lambda>s. map_sum id of_int (digits_int s)),
      to_date = iso_date,
      series_mean = exact_mean,
      round1 = (\<lambda>x. of_int (round_half_even (x * 10)) / 10),
      reread_books = example_reread_books,
      reread_reading = example_reread_reading\<rparr>"

section \<open>The words of the specification\<close>

text \<open>The specification's stub record for a title: that title, and every field the
  synchronizer does not derive undefined.\<close>

definition is_stub :: "string \<Rightarrow> book \<Rightarrow> bool" where
  "is_stub book_title b =
     (Title b = PyStr book_title \<and> Author b = None \<and> Author_FN b = None \<and>
      Author_MN b = None \<and> Author_LN b = None \<and> Length b = NaN \<and> Genre b = None)"

text \<open>The number the specification gives for \<^verbatim>\<open>Times Read\<close>: the reading log rows
  with that title and a defined finish date.\<close>

definition finished_count :: "reading list \<Rightarrow> string \<Rightarrow> nat" where
  "finished_count rows book_title =
     length (filter (\<lambda>e. rTitle e = PyStr book_title \<and> Finish e \<noteq> None) rows)"

text \<open>The ratings the specification averages: the defined ratings of the reading log
  rows with that title, in the order of the rows.\<close>

definition defined_ratings :: "reading list \<Rightarrow> string \<Rightarrow> int list" where
  "defined_ratings rows book_title =
     concat (map (\<lambda>e. case rRating e of None \<Rightarrow> [] | Some r \<Rightarrow> [r])
               (filter (\<lambda>e. rTitle e = PyStr book_title) rows))"

section \<open>Example data\<close>

text \<open>The scenario of the specification: the book ``Dune'', read from 2024-01-01
  (ordinal 738886) to 2024-01-10 (ordinal 738895) and rated 5.\<close>

definition dune_entry :: reading where
  "dune_entry = \<lparr>rTitle = PyStr ''Dune'', Start = Some 738886, Finish = Some 738895,
                  Reading_Time = Some 10, rRating = Some 5\<rparr>"

definition dune_answers :: new_book_answers where
  "dune_answers = \<lparr>ans_author_fn = ''Frank'', ans_author_mn = '''',
                    ans_author_ln = ''Herbert'', ans_length = ''412'', ans_rating = '''',
                    ans_genre = ''Science fiction''\<rparr>"

text \<open>Three catalog rows: two with an author, one without.\<close>

definition dune_book :: book where
  "dune_book = \<lparr>Title = PyStr ''Dune'', Author = Some ''Frank Herbert'',
                 Author_FN = Some ''Frank'', Author_MN = None, Author_LN = Some ''Herbert'',
                 Length = PyInt 412, Times_Read = PyInt 1, Rating = PyFloat 5,
                 Genre = Some ''Science fiction''\<rparr>"

definition foundation_book :: book where
  "foundation_book = \<lparr>Title = PyStr ''Foundation'', Author = Some ''Isaac Asimov'',
                       Author_FN = Some ''Isaac'', Author_MN = None,
                       Author_LN = Some ''Asimov'', Length = PyInt 255, Times_Read = PyInt 0,
                       Rating = NaN, Genre = Some ''Science fiction''\<rparr>"

definition beowulf_book :: book where
  "beowulf_book = \<lparr>Title = PyStr ''Beowulf'', Author = None, Author_FN = None,
                    Author_MN = None, Author_LN = None, Length = NaN, Times_Read = PyInt 0,
                    Rating = NaN, Genre = None\<rparr>"

text \<open>A data directory whose \<^verbatim>\<open>books.csv\<close> holds one record and whose
  \<^verbatim>\<open>reading.csv\<close> does not exist.\<close>

definition dune_files :: files where
  "dune_files =
     Map.empty(''data/books.csv'' \<mapsto>
       Csv [''Title'', ''Author'', ''Author FN'', ''Author MN'', ''Author LN'',
            ''Length'', ''Times Read'', ''Rating'', ''Genre'']
           [[''Dune'', ''Frank Herbert'', ''Frank'', '''', ''Herbert'', ''412'', ''1'',
             ''5.0'', ''Science fiction'']])"

text \<open>A session on an empty log and an empty catalog: the user adds a reading entry
  for ``Dune'' and, asked for the new catalog entry, describes the book.\<close>

definition dune_session :: session_answers where
  "dune_session =
     \<lparr>ans_mode = ''1'', ans_titles = [''Dune''], ans_switch = '''',
      ans_edit = \<lparr>ans_index = '''', ans_prop = '''', ans_value = ''''\<rparr>,
      ans_add = \<lparr>ans_start = ''2024-01-01'', ans_finish = ''2024-01-10'',
                 ans_entry_rating = ''5''\<rparr>,
      ans_remove = '''',
      ans_book = dune_answers,
      ans_book2 = dune_answers\<rparr>"

text \<open>A session on a log and a catalog that hold ``Dune'': the user edits entry 0 of
  ``Dune'' and gives it the title ``Dune Messiah''.\<close>

definition retitle_session :: session_answers where
  "retitle_session =
     \<lparr>ans_mode = ''2'', ans_titles = [''Dune''], ans_switch = '''',
      ans_edit = \<lparr>ans_index = ''0'', ans_prop = ''1'', ans_value = ''Dune Messiah''\<rparr>,
      ans_add = \<lparr>ans_start = '''', ans_finish = '''', ans_entry_rating = ''''\<rparr>,
      ans_remove = '''',
      ans_book = dune_answers,
      ans_book2 = dune_answers\<rparr>"

text \<open>A second book, read once and rated 4, and a session on a log and a catalog that
  hold both books: the user asks to remove an entry of ``Dune'' and types the index of
  the entry of ``Emma''.\<close>

definition emma_entry :: reading where
  "emma_entry = \<lparr>rTitle = PyStr ''Emma'', Start = Some 738900, Finish = Some 738910,
                  Reading_Time = Some 11, rRating = Some 4\<rparr>"

definition emma_book :: book where
  "emma_book = \<lparr>Title = PyStr ''Emma'', Author = Some ''Jane Austen'',
                 Author_FN = Some ''Jane'', Author_MN = None, Author_LN = Some ''Austen'',
                 Length = PyInt 474, Times_Read = PyInt 1, Rating = PyFloat 4,
                 Genre = Some ''Novel''\<rparr>"

definition remove_session :: session_answers where
  "remove_session =
     \<lparr>ans_mode = ''3'', ans_titles = [''Dune''], ans_switch = '''',
      ans_edit = \<lparr>ans_index = '''', ans_prop = '''', ans_value = ''''\<rparr>,
      ans_add = \<lparr>ans_start = '''', ans_finish = '''', ans_entry_rating = ''''\<rparr>,
      ans_remove = ''1'',
      ans_book = dune_answers,
      ans_book2 = dune_answers\<rparr>"

text \<open>A session on an empty log and an empty catalog for a book whose title is a
  number: both synchronizer calls find the title missing and ask for the catalog
  entry.\<close>

definition orwell_answers :: new_book_answers where
  "orwell_answers = \<lparr>ans_author_fn = ''George'', ans_author_mn = '''',
                      ans_author_ln = ''Orwell'', ans_length = ''328'', ans_rating = '''',
                      ans_genre = ''Dystopia''\<rparr>"

definition orwell_session :: session_answers where
  "orwell_session =
     \<lparr>ans_mode = ''1'', ans_titles = [''1984''], ans_switch = '''',
      ans_edit = \<lparr>ans_index = '''', ans_prop = '''', ans_value = ''''\<rparr>,
      ans_add = \<lparr>ans_start = ''2024-01-01'', ans_finish = ''2024-01-10'',
                 ans_entry_rating = ''5''\<rparr>,
      ans_remove = '''',
      ans_book = orwell_answers,
      ans_book2 = orwell_answers\<rparr>"

section \<open>Reading time is the number of days, both ends counted\<close>

text \<open>
  Claim C5. For two dates with \<open>start \<le> finish\<close>, \<^verbatim>\<open>update_reading_time\<close> returns
  the difference in days plus one; and for any two inputs the result is undefined
  exactly when the start or the finish is undefined.
\<close>

theorem update_reading_time_days:
  "(s \<le> f \<longrightarrow> update_reading_time (Some s) (Some f) = Some ((f - s) + 1)) \<and>
   ((update_reading_time start finish = None) = (start = None \<or> finish = None))"
  by (simp add: update_reading_time_def)

theorem update_reading_time_days_witness:
  "update_reading_time (Some 738886) (Some 738895) = Some 10 \<and>
   update_reading_time None (Some 738895) = None"
  using update_reading_time_days [of 738886 738895 None "Some 738895"] by simp

section \<open>Facts about the table operations\<close>

lemma loc_mask_map: "loc_mask db (map p db) = filter p db"
  unfolding loc_mask_def by (induction db) auto



lemma loc_title_all:
  "b \<in> set (loc_title books_db T f) \<Longrightarrow> Title b = PyStr T \<Longrightarrow> (\<And>x. Title (f x) = Title x) \<Longrightarrow>
     \<exists>x\<in>set books_db. Title x = PyStr T \<and> b = f x"
  by (auto simp: loc_title_def split: if_splits)


lemma loc_title_absent: "\<not> title_in T books_db \<Longrightarrow> loc_title books_db T f = books_db"
  by (induction books_db) (auto simp: title_in_def loc_title_def)

lemma loc_title_append: "loc_title (xs @ ys) T f = loc_title xs T f @ loc_title ys T f"
  by (simp add: loc_title_def)

text \<open>The two filters of \<^verbatim>\<open>update_reading_count\<close>, combined with \<^verbatim>\<open>&\<close>, select the
  rows the specification counts.\<close>

lemma read_cnt_eq:
  "length (loc_mask reading_db (map2 (\<and>) (map (\<lambda>(l, e). rTitle e = PyStr T) reading_db)
       (map (\<lambda>(l, e). Finish e \<noteq> None) reading_db)))
   = finished_count (to_csv reading_db) T"
proof -
  have "map2 (\<and>) (map (\<lambda>(l, e). rTitle e = PyStr T) reading_db)
       (map (\<lambda>(l, e). Finish e \<noteq> None) reading_db)
     = map (\<lambda>x. rTitle (snd x) = PyStr T \<and> Finish (snd x) \<noteq> None) reading_db"
    by (induction reading_db) auto
  then show ?thesis
    by (simp add: loc_mask_map to_csv_def filter_map comp_def finished_count_def)
qed

lemma dropna_concat: "dropna col = concat (map (\<lambda>v. case v of None \<Rightarrow> [] | Some r \<Rightarrow> [r]) col)"
  by (induction col rule: dropna.induct) auto

text \<open>The cells \<^verbatim>\<open>mean()\<close> averages in \<^verbatim>\<open>update_book_rating\<close> are the ratings the
  specification averages.\<close>

lemma ratings_eq:
  "dropna (map (\<lambda>(l, e). rRating e)
      (loc_mask reading_db (map (\<lambda>(l, e). rTitle e = PyStr T) reading_db)))
   = defined_ratings (to_csv reading_db) T"
  unfolding loc_mask_map dropna_concat defined_ratings_def to_csv_def
  by (induction reading_db) auto

lemma update_book_rating_eq:
  "update_book_rating lib reading_db books_db T ans =
     loc_title (if title_in T books_db then books_db else add_new_book books_db T ans) T
       (\<lambda>b. b\<lparr>Rating :=
          (if defined_ratings (to_csv reading_db) T = [] then NaN
           else PyFloat (round1 lib (series_mean lib (defined_ratings (to_csv reading_db) T))))\<rparr>)"
  unfolding update_book_rating_def Let_def mean_skipna_def ratings_eq
  by simp

lemma update_reading_count_eq:
  "update_reading_count reading_db books_db T ans =
     loc_title (if title_in T books_db then books_db else add_new_book books_db T ans) T
       (\<lambda>b. b\<lparr>Times_Read := PyInt (int (finished_count (to_csv reading_db) T))\<rparr>)"
  unfolding update_reading_count_def Let_def read_cnt_eq by simp

lemma example_round_5: "round1 example_lib (series_mean example_lib [5]) = 5"
  by (simp add: example_lib_def exact_mean_def round_half_even_def)

lemma dune_finished: "finished_count (to_csv (read_csv [dune_entry])) ''Dune'' = 1"
  by (simp add: finished_count_def to_csv_def read_csv_def dune_entry_def)


section \<open>The synchronizer sets the read count\<close>



section \<open>The synchronizer sets the average rating\<close>



section \<open>A title missing from the catalog\<close>

text \<open>
  Claim C3, as the specification states it, fails: the entry the synchronizer creates
  for a title missing from the catalog is not a stub with every other field undefined.
  \<^verbatim>\<open>add_new_book\<close> asks the user for the entry; with the answers ``Frank'',
  ``Herbert'', ``412'', ``Science fiction'' no row of the resulting catalog is a stub.
\<close>

theorem synchronizer_stub_counterexample:
  "\<not> list_ex (is_stub ''Dune'')
       (update_reading_count (read_csv [dune_entry]) [] ''Dune'' dune_answers) \<and>
   \<not> list_ex (is_stub ''Dune'')
       (update_book_rating example_lib (read_csv [dune_entry]) [] ''Dune'' dune_answers) \<and>
   map Author_FN (update_reading_count (read_csv [dune_entry]) [] ''Dune'' dune_answers)
     = [Some ''Frank'']"
  by (simp add: update_reading_count_def update_book_rating_def title_in_def add_new_book_def
      loc_title_def is_stub_def dune_answers_def Let_def)

text \<open>
  Claim C3, amended. For every title \<open>T\<close> absent from the catalog, each synchronizer
  function appends one entry for \<open>T\<close> made of the answers typed at the prompts of
  \<^verbatim>\<open>add_new_book\<close> (the author is \<^verbatim>\<open>generate_full_author\<close> of the typed name parts),
  and then sets its derived field in that entry; after the call the catalog has an entry
  titled \<open>T\<close>.
\<close>

theorem synchronizer_adds_answered_entry:
  assumes "\<not> title_in T books_db"
  shows "update_reading_count reading_db books_db T ans =
           books_db @
           [\<lparr>Title = PyStr T,
             Author = Some (generate_full_author (ans_author_fn ans) (ans_author_mn ans)
                              (ans_author_ln ans)),
             Author_FN = Some (ans_author_fn ans),
             Author_MN = Some (ans_author_mn ans),
             Author_LN = Some (ans_author_ln ans),
             Length = PyStr (ans_length ans),
             Times_Read = PyInt (int (finished_count (to_csv reading_db) T)),
             Rating = PyStr (ans_rating ans),
             Genre = Some (ans_genre ans)\<rparr>] \<and>
         update_book_rating lib reading_db books_db T ans =
           books_db @
           [\<lparr>Title = PyStr T,
             Author = Some (generate_full_author (ans_author_fn ans) (ans_author_mn ans)
                              (ans_author_ln ans)),
             Author_FN = Some (ans_author_fn ans),
             Author_MN = Some (ans_author_mn ans),
             Author_LN = Some (ans_author_ln ans),
             Length = PyStr (ans_length ans),
             Times_Read = NaN,
             Rating = (if defined_ratings (to_csv reading_db) T = [] then NaN
                       else PyFloat (round1 lib (series_mean lib
                              (defined_ratings (to_csv reading_db) T)))),
             Genre = Some (ans_genre ans)\<rparr>] \<and>
         title_in T (update_reading_count reading_db books_db T ans) \<and>
         title_in T (update_book_rating lib reading_db books_db T ans)"
proof -
  have c: "update_reading_count reading_db books_db T ans = books_db @
           [\<lparr>Title = PyStr T,
             Author = Some (generate_full_author (ans_author_fn ans) (ans_author_mn ans)
                              (ans_author_ln ans)),
             Author_FN = Some (ans_author_fn ans),
             Author_MN = Some (ans_author_mn ans),
             Author_LN = Some (ans_author_ln ans),
             Length = PyStr (ans_length ans),
             Times_Read = PyInt (int (finished_count (to_csv reading_db) T)),
             Rating = PyStr (ans_rating ans),
             Genre = Some (ans_genre ans)\<rparr>]"
    using assms unfolding update_reading_count_eq
    by (simp add: add_new_book_def loc_title_append loc_title_absent) (simp add: loc_title_def)
  have r: "update_book_rating lib reading_db books_db T ans = books_db @
           [\<lparr>Title = PyStr T,
             Author = Some (generate_full_author (ans_author_fn ans) (ans_author_mn ans)
                              (ans_author_ln ans)),
             Author_FN = Some (ans_author_fn ans),
             Author_MN = Some (ans_author_mn ans),
             Author_LN = Some (ans_author_ln ans),
             Length = PyStr (ans_length ans),
             Times_Read = NaN,
             Rating = (if defined_ratings (to_csv reading_db) T = [] then NaN
                       else PyFloat (round1 lib (series_mean lib
                              (defined_ratings (to_csv reading_db) T)))),
             Genre = Some (ans_genre ans)\<rparr>]"
    using assms unfolding update_book_rating_eq
    by (simp add: add_new_book_def loc_title_append loc_title_absent) (simp add: loc_title_def)
  have "title_in T (update_reading_count reading_db books_db T ans)"
    unfolding c by (simp add: title_in_def)
  moreover have "title_in T (update_book_rating lib reading_db books_db T ans)"
    unfolding r by (simp add: title_in_def)
  ultimately show ?thesis using c r by blast
qed

theorem synchronizer_adds_answered_entry_witness:
  "\<not> title_in ''Dune'' [] \<and>
   update_reading_count (read_csv [dune_entry]) [] ''Dune'' dune_answers =
     [\<lparr>Title = PyStr ''Dune'', Author = Some ''Frank Herbert'', Author_FN = Some ''Frank'',
       Author_MN = Some '''', Author_LN = Some ''Herbert'', Length = PyStr ''412'',
       Times_Read = PyInt 1, Rating = PyStr '''', Genre = Some ''Science fiction''\<rparr>] \<and>
   title_in ''Dune'' (update_reading_count (read_csv [dune_entry]) [] ''Dune'' dune_answers)"
proof -
  have h: "\<not> title_in ''Dune'' []" by (simp add: title_in_def)
  from synchronizer_adds_answered_entry [OF h, of "read_csv [dune_entry]" dune_answers example_lib]
  show ?thesis using h unfolding dune_finished
    by (simp add: dune_answers_def generate_full_author_def title_in_def)
qed

section \<open>Facts about the reading log operations\<close>

lemma loc_rows_Nil_iff: "loc_rows db i = [] \<longleftrightarrow> i \<notin> set (map fst db)"
  unfolding loc_rows_def by (induction db) auto

lemma loc_rows_map:
  "loc_rows (map (\<lambda>(l, r). if l = i then (l, f r) else (l, r)) db) i = map f (loc_rows db i)"
  unfolding loc_rows_def by (induction db) (auto split: if_splits)

lemma loc_rows_loc_set_mem:
  "i \<in> set (map fst db) \<Longrightarrow> loc_rows (loc_set db i f) i = map f (loc_rows db i)"
  by (simp add: loc_set_def loc_rows_map)

lemma loc_rows_loc_set_new:
  assumes "i \<notin> set (map fst db)"
  shows "loc_rows (loc_set db i f) i = [f nan_row]"
proof -
  from assms have "loc_rows db i = []" by (simp add: loc_rows_Nil_iff)
  with assms show ?thesis by (simp add: loc_set_def loc_rows_def)
qed

lemma map_other_labels:
  "i \<notin> set (map fst db) \<Longrightarrow> map (\<lambda>(l, r). if l = i then (l, f r) else (l, r)) db = db"
  by (induction db) auto

lemma loc_set_twice_new:
  assumes "i \<notin> set (map fst db)"
  shows "loc_set (loc_set db i f) i g = db @ [(i, g (f nan_row))]"
  using assms by (simp add: loc_set_def map_other_labels)

lemma length_loc_set_mem:
  "i \<in> set (map fst db) \<Longrightarrow> length (loc_set db i f) = length db"
  by (simp add: loc_set_def)

lemma labels_loc_set_mem:
  "i \<in> set (map fst db) \<Longrightarrow> map fst (loc_set db i f) = map fst db"
  by (induction db) (auto simp: loc_set_def)

text \<open>The labels of a frame just read are the positions of its rows.\<close>

lemma labels_read_csv: "set (map fst (read_csv rows)) = {i. 0 \<le> i \<and> i < int (length rows)}"
  unfolding read_csv_def
  by (auto simp: image_iff) (metis nat_less_iff nat_0_le atLeast0LessThan lessThan_iff)

lemma loc_rows_zip_upt:
  "map snd (filter (\<lambda>(l, r). l = i) (zip (map int [k..<k + length rows]) rows)) =
     (if int k \<le> i \<and> i < int (k + length rows) then [rows ! (nat i - k)] else [])"
proof (induction rows arbitrary: k)
  case Nil
  then show ?case by simp
next
  case (Cons r rows)
  have u: "[k..<k + length (r # rows)] = k # [Suc k..<Suc k + length rows]"
    using upt_conv_Cons [of k "k + length (r # rows)"] by simp
  show ?case
    unfolding u using Cons.IH [of "Suc k"]
    by (auto simp: nth_Cons' nat_diff_distrib Suc_diff_le split: if_splits)
qed

lemma loc_rows_read_csv:
  "loc_rows (read_csv rows) i =
     (if 0 \<le> i \<and> i < int (length rows) then [rows ! nat i] else [])"
  using loc_rows_zip_upt [of i 0 rows] by (simp add: loc_rows_def read_csv_def)

text \<open>An edit that returns has found one row under the label and has set its
  reading time from its start and finish.\<close>

lemma edit_reading_entry_Inr:
  assumes "edit_reading_entry lib reading_db T ans = Inr db'"
    and "py_int lib (ans_index ans) = Inr i"
  shows "\<exists>assign row. loc_rows (loc_set reading_db i assign) i = [row] \<and>
           db' = loc_set (loc_set reading_db i assign) i
                   (\<lambda>r. r\<lparr>Reading_Time := update_reading_time (Start row) (Finish row)\<rparr>)"
  using assms unfolding edit_reading_entry_def Let_def
  by (auto split: sum.splits option.splits list.splits)

lemma edit_reading_entry_row:
  assumes "edit_reading_entry lib reading_db T ans = Inr db'"
    and "py_int lib (ans_index ans) = Inr i"
  shows "\<exists>row. loc_rows db' i = [row] \<and>
           Reading_Time row = update_reading_time (Start row) (Finish row)"
proof -
  from edit_reading_entry_Inr [OF assms] obtain assign row where
    one: "loc_rows (loc_set reading_db i assign) i = [row]" and
    db': "db' = loc_set (loc_set reading_db i assign) i
                   (\<lambda>r. r\<lparr>Reading_Time := update_reading_time (Start row) (Finish row)\<rparr>)"
    by blast
  from one have "i \<in> set (map fst (loc_set reading_db i assign))"
    using loc_rows_Nil_iff [of "loc_set reading_db i assign" i] by simp
  then have "loc_rows db' i =
      [row\<lparr>Reading_Time := update_reading_time (Start row) (Finish row)\<rparr>]"
    unfolding db' by (simp add: loc_rows_loc_set_mem one)
  then show ?thesis by simp
qed

text \<open>At a label of the frame read from the file, an edit whose answers are accepted
  returns, and the frame keeps its length.\<close>

lemma edit_reading_entry_valid:
  assumes "py_int lib (ans_index ans) = Inr i" and "0 \<le> i" and "i < int (length rows)"
    and "py_int lib (ans_prop ans) = Inr k" and "prop_dict_reading k = Some p"
    and "assign_reading lib p (ans_value ans) = Inr assign"
  shows "\<exists>db'. edit_reading_entry lib (read_csv rows) T ans = Inr db' \<and>
           length db' = length rows"
proof -
  have mem: "i \<in> set (map fst (read_csv rows))"
    using assms(2,3) labels_read_csv [of rows] by auto
  have one: "loc_rows (loc_set (read_csv rows) i assign) i = [assign (rows ! nat i)]"
    using assms(2,3) by (simp add: loc_rows_loc_set_mem [OF mem] loc_rows_read_csv)
  have mem': "i \<in> set (map fst (loc_set (read_csv rows) i assign))"
    using mem by (simp add: labels_loc_set_mem)
  have len: "length (loc_set (loc_set (read_csv rows) i assign) i g) = length rows" for g
    by (simp add: length_loc_set_mem [OF mem'] length_loc_set_mem [OF mem])
       (simp add: read_csv_def)
  show ?thesis
    using assms(1,4,5,6) one len
    by (simp add: edit_reading_entry_def Let_def)
qed

text \<open>At a label the frame does not have, \<^verbatim>\<open>remove_reading_entry\<close> raises KeyError,
  and \<^verbatim>\<open>edit_reading_entry\<close> returns the frame with one more row.\<close>

lemma remove_reading_entry_missing:
  assumes "py_int lib ans = Inr i" and "i \<notin> set (map fst reading_db)"
  shows "remove_reading_entry lib reading_db T ans = Inl KeyError"
  using assms by (simp add: remove_reading_entry_def drop_label_def)

lemma edit_reading_entry_missing:
  assumes "py_int lib (ans_index ans) = Inr i" and "i \<notin> set (map fst reading_db)"
    and "py_int lib (ans_prop ans) = Inr k" and "prop_dict_reading k = Some p"
    and "assign_reading lib p (ans_value ans) = Inr assign"
  shows "edit_reading_entry lib reading_db T ans =
           Inr (reading_db @ [(i, (assign nan_row)\<lparr>Reading_Time :=
                  update_reading_time (Start (assign nan_row)) (Finish (assign nan_row))\<rparr>)])"
  using assms
  by (simp add: edit_reading_entry_def loc_rows_loc_set_new loc_set_twice_new Let_def)

lemma example_int_0: "py_int example_lib ''0'' = Inr 0"
  by (simp add: example_lib_def digits_int_def digit_def)

lemma example_int_1: "py_int example_lib ''1'' = Inr 1"
  by (simp add: example_lib_def digits_int_def digit_def)

lemma example_int_3: "py_int example_lib ''3'' = Inr 3"
  by (simp add: example_lib_def digits_int_def digit_def)

lemma example_int_4: "py_int example_lib ''4'' = Inr 4"
  by (simp add: example_lib_def digits_int_def digit_def)

lemma example_int_5: "py_int example_lib ''5'' = Inr 5"
  by (simp add: example_lib_def digits_int_def digit_def)

lemma example_date_start: "to_date example_lib ''2024-01-01'' = Inr (Some 738886)"
  by (simp add: example_lib_def iso_date_def digit_def ymd2ord_def days_in_month_def
      is_leap_def)

lemma example_date_finish: "to_date example_lib ''2024-01-10'' = Inr (Some 738895)"
  by (simp add: example_lib_def iso_date_def digit_def ymd2ord_def days_in_month_def
      is_leap_def)

section \<open>An edit at a position the log does not have\<close>

text \<open>
  Claim C4 asks that \<^verbatim>\<open>edit_reading_entry\<close> and \<^verbatim>\<open>remove_reading_entry\<close> fail at a
  position that is not a row of the log, and leave the log unchanged.
  \<^verbatim>\<open>remove_reading_entry\<close> does (\<open>remove_reading_entry_missing\<close>). \<^verbatim>\<open>edit_reading_entry\<close>
  does not: on a log of one row (label 0), the answers ``1'' (the index), ``4'' (the
  rating) and ``3'' (its new value) make it return the log with a second row, labelled 1,
  whose cells are missing but for the rating.
\<close>

theorem edit_reading_entry_appends_row:
  "edit_reading_entry example_lib (read_csv [dune_entry]) ''Dune''
     \<lparr>ans_index = ''1'', ans_prop = ''4'', ans_value = ''3''\<rparr> =
   Inr [(0, dune_entry),
        (1, \<lparr>rTitle = NaN, Start = None, Finish = None, Reading_Time = None,
              rRating = Some 3\<rparr>)]"
  by (simp add: edit_reading_entry_def example_int_1 example_int_4 example_int_3
      prop_dict_reading_def read_csv_def loc_set_def loc_rows_def nan_row_def
      update_reading_time_def)

section \<open>Every edit recomputes the reading time\<close>

text \<open>
  Claim C10. An edit at a valid position of the reading log, whichever of the four
  fields it changes, returns the log with as many rows as before, and the row at that
  position has a reading time equal to \<^verbatim>\<open>update_reading_time\<close> of its start and
  finish.
\<close>

theorem edit_reading_entry_reading_time:
  assumes "py_int lib (ans_index ans) = Inr i" and "0 \<le> i" and "i < int (length rows)"
    and "py_int lib (ans_prop ans) = Inr k" and "prop_dict_reading k = Some p"
    and "assign_reading lib p (ans_value ans) = Inr assign"
  shows "\<exists>db' row. edit_reading_entry lib (read_csv rows) T ans = Inr db' \<and>
           length db' = length rows \<and> loc_rows db' i = [row] \<and>
           Reading_Time row = update_reading_time (Start row) (Finish row)"
proof -
  from edit_reading_entry_valid [OF assms] obtain db' where
    e: "edit_reading_entry lib (read_csv rows) T ans = Inr db'" and
    l: "length db' = length rows"
    by blast
  from edit_reading_entry_row [OF e assms(1)] e l show ?thesis by blast
qed

theorem edit_reading_entry_reading_time_witness:
  "\<exists>db' row.
     edit_reading_entry example_lib (read_csv [dune_entry\<lparr>Reading_Time := None\<rparr>]) ''Dune''
       \<lparr>ans_index = ''0'', ans_prop = ''1'', ans_value = ''Dune Messiah''\<rparr> = Inr db' \<and>
     length db' = length [dune_entry\<lparr>Reading_Time := None\<rparr>] \<and>
     loc_rows db' 0 = [row] \<and>
     Reading_Time row = update_reading_time (Start row) (Finish row)"
  using edit_reading_entry_reading_time [of example_lib
      "\<lparr>ans_index = ''0'', ans_prop = ''1'', ans_value = ''Dune Messiah''\<rparr>" 0
      "[dune_entry\<lparr>Reading_Time := None\<rparr>]" 1 Reading_Title
      "\<lambda>r. r\<lparr>rTitle := PyStr ''Dune Messiah''\<rparr>" "''Dune''"]
  by (simp add: example_int_0 example_int_1 prop_dict_reading_def)

section \<open>The author follows the name parts\<close>

lemma find_loc_title:
  assumes "filter (\<lambda>b. Title b = PyStr T) xs = b # bs" and "\<And>x. Title (g x) = Title x"
  shows "find (\<lambda>b. Title b = PyStr T) (loc_title xs T g) = Some (g b)"
  using assms(1)
proof (induction xs)
  case Nil
  then show ?case by simp
next
  case (Cons x xs)
  then show ?case using assms(2) by (auto simp: loc_title_def split: if_splits)
qed

lemma prop_dict_books_name_part:
  "k \<in> {2, 3, 4} \<Longrightarrow>
     \<exists>p. prop_dict_books k = Some p \<and> p \<in> {Book_Author_FN, Book_Author_MN, Book_Author_LN}"
  by (auto simp: prop_dict_books_def)

text \<open>An edit of a name part that returns has read the name parts of the first row
  with the title, after the assignment, and has written their author into every row with
  the title.\<close>

lemma edit_existing_book_name_part:
  assumes "edit_existing_book lib books_db T ans = Inr db'"
    and "py_int lib (ans_book_prop ans) = Inr k" and "k \<in> {2, 3, 4}"
  shows "\<exists>db1 b bs first_name last_name.
           filter (\<lambda>b. Title b = PyStr T) db1 = b # bs \<and>
           Author_FN b = Some first_name \<and> Author_LN b = Some last_name \<and>
           db' = loc_title db1 T (\<lambda>x. x\<lparr>Author := Some (generate_full_author first_name
                    (case Author_MN b of None \<Rightarrow> [] | Some m \<Rightarrow> m) last_name)\<rparr>)"
proof -
  from prop_dict_books_name_part [OF assms(3)] obtain p where
    p: "prop_dict_books k = Some p" "p \<in> {Book_Author_FN, Book_Author_MN, Book_Author_LN}"
    by blast
  show ?thesis
  proof (cases "assign_book lib p (ans_book_value ans)")
    case (Inl e)
    with assms(1) show ?thesis
      by (simp add: edit_existing_book_def assms(2) p(1))
  next
    case (Inr assign)
    show ?thesis
    proof (cases "filter (\<lambda>b. Title b = PyStr T) (loc_title books_db T assign)")
      case Nil
      with assms(1) Inr p(2) show ?thesis
        by (auto simp: edit_existing_book_def assms(2) p(1) Let_def)
    next
      case (Cons b bs)
      with assms(1) Inr p(2) show ?thesis
        by (cases "Author_FN b"; cases "Author_LN b")
           (auto simp: edit_existing_book_def assms(2) p(1) Let_def)
    qed
  qed
qed

text \<open>
  Claim C6. For every three name parts, \<^verbatim>\<open>generate_full_author\<close> is ``First Last''
  when the middle name is the empty string and ``First Middle Last'' otherwise. And after
  an edit of the catalog that changes one of the three name parts (menu numbers 2, 3
  and 4) and returns, the record of the title (the first row with that title) has a
  first and a last name, and its author is that function of its name parts, a missing
  middle name counting as empty; every row with the title has the same author.
\<close>

theorem edit_existing_book_author:
  "generate_full_author f m l = (if m = [] then f @ '' '' @ l else f @ '' '' @ m @ '' '' @ l) \<and>
   (edit_existing_book lib books_db T ans = Inr db' \<and>
    py_int lib (ans_book_prop ans) = Inr k \<and> k \<in> {2, 3, 4} \<longrightarrow>
      (\<exists>b first_name last_name.
         find (\<lambda>b. Title b = PyStr T) db' = Some b \<and>
         Author_FN b = Some first_name \<and> Author_LN b = Some last_name \<and>
         Author b = Some (generate_full_author first_name
                            (case Author_MN b of None \<Rightarrow> [] | Some m \<Rightarrow> m) last_name) \<and>
         (\<forall>b'\<in>set db'. Title b' = PyStr T \<longrightarrow> Author b' = Author b)))"
proof (intro conjI impI)
  show "generate_full_author f m l = (if m = [] then f @ '' '' @ l else f @ '' '' @ m @ '' '' @ l)"
    by (simp add: generate_full_author_def)
next
  assume h: "edit_existing_book lib books_db T ans = Inr db' \<and>
    py_int lib (ans_book_prop ans) = Inr k \<and> k \<in> {2, 3, 4}"
  then obtain db1 b bs first_name last_name where
    f: "filter (\<lambda>b. Title b = PyStr T) db1 = b # bs" and
    n: "Author_FN b = Some first_name" "Author_LN b = Some last_name" and
    db': "db' = loc_title db1 T (\<lambda>x. x\<lparr>Author := Some (generate_full_author first_name
                    (case Author_MN b of None \<Rightarrow> [] | Some m \<Rightarrow> m) last_name)\<rparr>)"
    using edit_existing_book_name_part [of lib books_db T ans db' k] by blast
  define a where "a = Some (generate_full_author first_name
                    (case Author_MN b of None \<Rightarrow> [] | Some m \<Rightarrow> m) last_name)"
  have db'': "db' = loc_title db1 T (\<lambda>x. x\<lparr>Author := a\<rparr>)"
    unfolding db' a_def ..
  have fnd: "find (\<lambda>b. Title b = PyStr T) db' = Some (b\<lparr>Author := a\<rparr>)"
    unfolding db'' by (rule find_loc_title [OF f]) simp
  have all: "\<forall>b'\<in>set db'. Title b' = PyStr T \<longrightarrow> Author b' = a"
    unfolding db'' using loc_title_all [of _ db1 T "\<lambda>x. x\<lparr>Author := a\<rparr>"] by fastforce
  show "\<exists>b first_name last_name.
         find (\<lambda>b. Title b = PyStr T) db' = Some b \<and>
         Author_FN b = Some first_name \<and> Author_LN b = Some last_name \<and>
         Author b = Some (generate_full_author first_name
                            (case Author_MN b of None \<Rightarrow> [] | Some m \<Rightarrow> m) last_name) \<and>
         (\<forall>b'\<in>set db'. Title b' = PyStr T \<longrightarrow> Author b' = Author b)"
    using fnd n all
    by (intro exI [of _ "b\<lparr>Author := a\<rparr>"] exI [of _ first_name] exI [of _ last_name])
       (simp add: a_def)
qed

theorem edit_existing_book_author_witness:
  "edit_existing_book example_lib [foundation_book, dune_book] ''Dune''
     \<lparr>ans_book_prop = ''3'', ans_book_value = ''Patrick''\<rparr> =
     Inr [foundation_book,
          dune_book\<lparr>Author_MN := Some ''Patrick'', Author := Some ''Frank Patrick Herbert''\<rparr>] \<and>
   (\<exists>b first_name last_name.
      find (\<lambda>b. Title b = PyStr ''Dune'')
        [foundation_book,
         dune_book\<lparr>Author_MN := Some ''Patrick'', Author := Some ''Frank Patrick Herbert''\<rparr>]
        = Some b \<and>
      Author_FN b = Some first_name \<and> Author_LN b = Some last_name \<and>
      Author b = Some (generate_full_author first_name
                         (case Author_MN b of None \<Rightarrow> [] | Some m \<Rightarrow> m) last_name))"
proof -
  have e: "edit_existing_book example_lib [foundation_book, dune_book] ''Dune''
     \<lparr>ans_book_prop = ''3'', ans_book_value = ''Patrick''\<rparr> =
     Inr [foundation_book,
          dune_book\<lparr>Author_MN := Some ''Patrick'', Author := Some ''Frank Patrick Herbert''\<rparr>]"
    by (simp add: edit_existing_book_def example_int_3 prop_dict_books_def loc_title_def
        foundation_book_def dune_book_def generate_full_author_def)
  have p: "py_int example_lib (ans_book_prop \<lparr>ans_book_prop = ''3'',
             ans_book_value = ''Patrick''\<rparr>) = Inr 3"
    by (simp add: example_int_3)
  have k: "(3::int) \<in> {2, 3, 4}" by simp
  from edit_existing_book_author [THEN conjunct2, rule_format, OF conjI [OF e conjI [OF p k]]] e
  show ?thesis by blast
qed

section \<open>Sorting a sorted catalog\<close>

lemma example_books_sorted:
  "sorted (map book_sort_key [foundation_book, dune_book, beowulf_book])"
  by (simp add: book_sort_key_def na_last_def foundation_book_def dune_book_def
      beowulf_book_def)

text \<open>
  Claim C8. The sort of the catalog before it is written (by last name, then by title,
  rows without a last name last) is idempotent: a catalog already in that order is
  returned as it is, and sorting twice is sorting once.
\<close>

theorem sort_books_idempotent:
  "(sorted (map book_sort_key books_db) \<longrightarrow> sort_books books_db = books_db) \<and>
   sort_books (sort_books books_db) = sort_books books_db"
  by (simp add: sort_books_def sort_key_id_if_sorted)

theorem sort_books_idempotent_witness:
  "sorted (map book_sort_key [foundation_book, dune_book, beowulf_book]) \<and>
   sort_books [foundation_book, dune_book, beowulf_book] =
     [foundation_book, dune_book, beowulf_book]"
  using sort_books_idempotent [of "[foundation_book, dune_book, beowulf_book]"]
    example_books_sorted by blast

section \<open>Creating the files keeps or replaces them\<close>

text \<open>
  Claim C9. Without the force-overwrite flag, \<^verbatim>\<open>create_databases\<close> leaves the content
  of every existing file unchanged, and running it twice is running it once. With the
  flag, each of the two files is replaced by an empty table with exactly its columns, and
  no other file changes.
\<close>

theorem create_databases_files:
  "(\<forall>p c. files p = Some c \<longrightarrow> create_databases False d files p = Some c) \<and>
   create_databases False d (create_databases False d files) = create_databases False d files \<and>
   create_databases True d files =
     files(d @ ''/books.csv'' \<mapsto>
             Csv [''Title'', ''Author'', ''Author FN'', ''Author MN'', ''Author LN'',
                  ''Length'', ''Times Read'', ''Rating'', ''Genre''] [],
           d @ ''/reading.csv'' \<mapsto>
             Csv [''Title'', ''Start'', ''Finish'', ''Reading Time'', ''Rating''] [])"
proof (intro conjI allI impI)
  fix p c assume "files p = Some c"
  then show "create_databases False d files p = Some c"
    by (auto simp: create_databases_def create_books_db_def create_reading_db_def Let_def)
next
  show "create_databases False d (create_databases False d files) = create_databases False d files"
    by (auto simp: create_databases_def create_books_db_def create_reading_db_def Let_def
        fun_upd_twist)
next
  show "create_databases True d files =
     files(d @ ''/books.csv'' \<mapsto>
             Csv [''Title'', ''Author'', ''Author FN'', ''Author MN'', ''Author LN'',
                  ''Length'', ''Times Read'', ''Rating'', ''Genre''] [],
           d @ ''/reading.csv'' \<mapsto>
             Csv [''Title'', ''Start'', ''Finish'', ''Reading Time'', ''Rating''] [])"
    by (simp add: create_databases_def create_books_db_def create_reading_db_def Let_def)
qed

theorem create_databases_files_witness:
  "dune_files ''data/books.csv'' =
     Some (Csv [''Title'', ''Author'', ''Author FN'', ''Author MN'', ''Author LN'',
            ''Length'', ''Times Read'', ''Rating'', ''Genre'']
           [[''Dune'', ''Frank Herbert'', ''Frank'', '''', ''Herbert'', ''412'', ''1'',
             ''5.0'', ''Science fiction'']]) \<and>
   create_databases False ''data'' dune_files ''data/books.csv'' =
     Some (Csv [''Title'', ''Author'', ''Author FN'', ''Author MN'', ''Author LN'',
            ''Length'', ''Times Read'', ''Rating'', ''Genre'']
           [[''Dune'', ''Frank Herbert'', ''Frank'', '''', ''Herbert'', ''412'', ''1'',
             ''5.0'', ''Science fiction'']]) \<and>
   create_databases True ''data'' dune_files ''data/books.csv'' =
     Some (Csv [''Title'', ''Author'', ''Author FN'', ''Author MN'', ''Author LN'',
            ''Length'', ''Times Read'', ''Rating'', ''Genre''] [])"
proof -
  have h: "dune_files ''data/books.csv'' =
     Some (Csv [''Title'', ''Author'', ''Author FN'', ''Author MN'', ''Author LN'',
            ''Length'', ''Times Read'', ''Rating'', ''Genre'']
           [[''Dune'', ''Frank Herbert'', ''Frank'', '''', ''Herbert'', ''412'', ''1'',
             ''5.0'', ''Science fiction'']])"
    by (simp add: dune_files_def)
  from create_databases_files [of dune_files "''data''", THEN conjunct1, rule_format, OF h]
    create_databases_files [of dune_files "''data''", THEN conjunct2, THEN conjunct2] h
  show ?thesis by simp
qed

section \<open>A session synchronizes the title it asked for\<close>

lemma sum_case_Inr_iff:
  "((case r of Inl e \<Rightarrow> Inl e | Inr x \<Rightarrow> f x) = Inr y) = (\<exists>x. r = Inr x \<and> f x = Inr y)"
  by (cases r) auto

text \<open>
  What every path of a session does. A session that returns has made exactly these
  calls, in this order: one mutation of the reading log (add, edit or remove),
  \<^verbatim>\<open>update_reading_count\<close> and \<^verbatim>\<open>update_book_rating\<close> on the mutated log, then the
  sort and the write of the log. Both synchronizer calls are for \<open>T\<close>, the title the
  session resolved at its title prompt; the second reads the catalog the first wrote.
\<close>

lemma update_reading_db_calls:
  assumes "update_reading_db lib w ans = Inr w'"
  shows "\<exists>update_mode T m reading_db.
      py_int lib (ans_mode ans) = Inr update_mode \<and>
      prompt_for_title
        (map (\<lambda>(l, e). rTitle e) (read_csv (reread_reading lib (reading_csv w)))) update_mode
        (ans_titles ans) = Inr T \<and>
      ((m = Add_Reading_Entry \<and>
          add_reading_entry lib (read_csv (reread_reading lib (reading_csv w))) T (ans_add ans)
            = Inr reading_db) \<or>
       (m = Edit_Reading_Entry \<and>
          edit_reading_entry lib (read_csv (reread_reading lib (reading_csv w))) T
            (ans_edit ans) = Inr reading_db) \<or>
       (m = Remove_Reading_Entry \<and>
          remove_reading_entry lib (read_csv (reread_reading lib (reading_csv w))) T
            (ans_remove ans) = Inr reading_db)) \<and>
      calls w' = calls w @
        [m, Update_Reading_Count T, Update_Book_Rating T, Sort_Values, To_Csv] \<and>
      books_csv w' =
        update_book_rating lib reading_db
          (reread_books lib
             (update_reading_count reading_db (reread_books lib (books_csv w)) T
                (ans_book ans)))
          T (ans_book2 ans) \<and>
      reading_csv w' = to_csv (sort_reading reading_db)"
  using assms
  unfolding update_reading_db_def Let_def update_reading_count_file_def
    update_book_rating_file_def called_def
  by (auto simp: sum_case_Inr_iff split: if_split_asm prod.split_asm)

lemma example_int_2: "py_int example_lib ''2'' = Inr 2"
  by (simp add: example_lib_def digits_int_def digit_def)

lemma example_reread_books_dune: "reread_books example_lib [dune_book] = [dune_book]"
  by (simp add: example_lib_def example_reread_books_def dune_book_def numeric_text_def
      retype_def blank_def digit_def)

lemma example_reread_reading_dune: "reread_reading example_lib [dune_entry] = [dune_entry]"
  by (simp add: example_lib_def example_reread_reading_def dune_entry_def numeric_text_def
      retype_def digit_def)

lemma example_reread_books_nil: "reread_books example_lib [] = []"
  by (simp add: example_lib_def example_reread_books_def)

lemma example_reread_reading_nil: "reread_reading example_lib [] = []"
  by (simp add: example_lib_def example_reread_reading_def)

lemma dune_add:
  "add_reading_entry example_lib [] ''Dune'' (ans_add dune_session) = Inr [(0, dune_entry)]"
  by (simp add: add_reading_entry_def dune_session_def example_date_start
      example_date_finish example_int_5 read_csv_def to_csv_def update_reading_time_def
      dune_entry_def)

lemma dune_count:
  "update_reading_count [(0, dune_entry)] [] ''Dune'' dune_answers =
     [\<lparr>Title = PyStr ''Dune'', Author = Some ''Frank Herbert'', Author_FN = Some ''Frank'',
       Author_MN = Some '''', Author_LN = Some ''Herbert'', Length = PyStr ''412'',
       Times_Read = PyInt 1, Rating = PyStr '''', Genre = Some ''Science fiction''\<rparr>]"
  by (simp add: update_reading_count_def title_in_def add_new_book_def loc_title_def
      loc_mask_def dune_entry_def dune_answers_def generate_full_author_def)

lemma dune_reread:
  "reread_books example_lib
     [\<lparr>Title = PyStr ''Dune'', Author = Some ''Frank Herbert'', Author_FN = Some ''Frank'',
       Author_MN = Some '''', Author_LN = Some ''Herbert'', Length = PyStr ''412'',
       Times_Read = PyInt 1, Rating = PyStr '''', Genre = Some ''Science fiction''\<rparr>] =
     [\<lparr>Title = PyStr ''Dune'', Author = Some ''Frank Herbert'', Author_FN = Some ''Frank'',
       Author_MN = None, Author_LN = Some ''Herbert'', Length = PyInt 412,
       Times_Read = PyInt 1, Rating = NaN, Genre = Some ''Science fiction''\<rparr>]"
  by (simp add: example_lib_def example_reread_books_def numeric_text_def retype_def
      blank_def digit_def)

text \<open>The scenario of the specification, run as a session on an empty log and an empty
  catalog. The catalog entry typed at the prompts is written by the first synchronizer
  call and read back by the second: its empty middle name and rating are missing cells
  and its length is a number.\<close>

lemma dune_session_run:
  "update_reading_db example_lib \<lparr>books_csv = [], reading_csv = [], calls = []\<rparr> dune_session =
     Inr \<lparr>books_csv = [dune_book], reading_csv = [dune_entry],
          calls = [Add_Reading_Entry, Update_Reading_Count ''Dune'',
                   Update_Book_Rating ''Dune'', Sort_Values, To_Csv]\<rparr>"
proof -
  have m: "py_int example_lib (ans_mode dune_session) = Inr 1"
    by (simp add: dune_session_def example_int_1)
  have a: "ans_book dune_session = dune_answers" "ans_book2 dune_session = dune_answers"
    "ans_titles dune_session = [''Dune'']"
    by (simp_all add: dune_session_def)
  have r: "update_book_rating example_lib [(0, dune_entry)]
     [\<lparr>Title = PyStr ''Dune'', Author = Some ''Frank Herbert'', Author_FN = Some ''Frank'',
       Author_MN = None, Author_LN = Some ''Herbert'', Length = PyInt 412,
       Times_Read = PyInt 1, Rating = NaN, Genre = Some ''Science fiction''\<rparr>]
     ''Dune'' dune_answers = [dune_book]"
    by (simp add: update_book_rating_def title_in_def loc_title_def loc_mask_def
        mean_skipna_def dune_entry_def dune_book_def example_round_5)
  show ?thesis
    unfolding update_reading_db_def Let_def update_reading_count_file_def
      update_book_rating_file_def called_def
    by (simp add: m a example_reread_reading_nil example_reread_books_nil read_csv_def
        dune_add dune_count dune_reread r sort_reading_def to_csv_def)
qed

text \<open>A session that removes, under the title ``Dune'', the entry of ``Emma'': the
  catalog keeps ``Emma'' as read once, and the log written has no entry for it.\<close>

lemma remove_session_run:
  "update_reading_db example_lib
     \<lparr>books_csv = [emma_book, dune_book], reading_csv = [dune_entry, emma_entry],
      calls = []\<rparr> remove_session =
     Inr \<lparr>books_csv = [emma_book, dune_book], reading_csv = [dune_entry],
          calls = [Remove_Reading_Entry, Update_Reading_Count ''Dune'',
                   Update_Book_Rating ''Dune'', Sort_Values, To_Csv]\<rparr> \<and>
   finished_count [dune_entry] ''Emma'' = 0 \<and> Times_Read emma_book = PyInt 1"
proof -
  have m: "py_int example_lib (ans_mode remove_session) = Inr 3"
    by (simp add: remove_session_def example_int_3)
  have t: "ans_titles remove_session = [''Dune'']"
    "ans_book remove_session = dune_answers" "ans_book2 remove_session = dune_answers"
    by (simp_all add: remove_session_def)
  have rd: "reread_reading example_lib [dune_entry, emma_entry] = [dune_entry, emma_entry]"
    by (simp add: example_lib_def example_reread_reading_def dune_entry_def emma_entry_def
        numeric_text_def retype_def digit_def)
  have r: "read_csv [dune_entry, emma_entry] = [(0, dune_entry), (1, emma_entry)]"
    by (simp add: read_csv_def)
  have p: "rTitle dune_entry = PyStr ''Dune''"
    by (simp add: dune_entry_def)
  have e: "remove_reading_entry example_lib [(0, dune_entry), (1, emma_entry)] ''Dune''
             (ans_remove remove_session) = Inr [(0, dune_entry)]"
    by (simp add: remove_reading_entry_def remove_session_def example_int_1 drop_label_def)
  have rb: "reread_books example_lib [emma_book, dune_book] = [emma_book, dune_book]"
    by (simp add: example_lib_def example_reread_books_def dune_book_def emma_book_def
        numeric_text_def retype_def blank_def digit_def)
  have c: "update_reading_count [(0, dune_entry)] [emma_book, dune_book] ''Dune'' dune_answers
             = [emma_book, dune_book]"
    by (simp add: update_reading_count_def title_in_def loc_title_def loc_mask_def
        dune_entry_def dune_book_def emma_book_def)
  have b: "update_book_rating example_lib [(0, dune_entry)] [emma_book, dune_book] ''Dune''
             dune_answers = [emma_book, dune_book]"
    by (simp add: update_book_rating_def title_in_def loc_title_def loc_mask_def
        mean_skipna_def dune_entry_def dune_book_def emma_book_def example_round_5)
  have run: "update_reading_db example_lib
     \<lparr>books_csv = [emma_book, dune_book], reading_csv = [dune_entry, emma_entry],
      calls = []\<rparr> remove_session =
     Inr \<lparr>books_csv = [emma_book, dune_book], reading_csv = [dune_entry],
          calls = [Remove_Reading_Entry, Update_Reading_Count ''Dune'',
                   Update_Book_Rating ''Dune'', Sort_Values, To_Csv]\<rparr>"
    unfolding update_reading_db_def Let_def update_reading_count_file_def
      update_book_rating_file_def called_def
    by (simp add: m t rd r p e rb c b sort_reading_def to_csv_def)
  have f: "finished_count [dune_entry] ''Emma'' = 0"
    by (simp add: finished_count_def dune_entry_def)
  have n: "Times_Read emma_book = PyInt 1"
    by (simp add: emma_book_def)
  from run f n show ?thesis by simp
qed

text \<open>A session for a title that is a number: the second synchronizer call reads the
  title back as the number 1984, does not find the title typed, and appends a second
  entry.\<close>

lemma orwell_session_run:
  "update_reading_db example_lib \<lparr>books_csv = [], reading_csv = [], calls = []\<rparr>
     orwell_session =
     Inr \<lparr>books_csv =
            [\<lparr>Title = PyInt 1984, Author = Some ''George Orwell'',
              Author_FN = Some ''George'', Author_MN = None, Author_LN = Some ''Orwell'',
              Length = PyInt 328, Times_Read = PyInt 1, Rating = NaN,
              Genre = Some ''Dystopia''\<rparr>,
             \<lparr>Title = PyStr ''1984'', Author = Some ''George Orwell'',
              Author_FN = Some ''George'', Author_MN = Some '''', Author_LN = Some ''Orwell'',
              Length = PyStr ''328'', Times_Read = NaN, Rating = PyFloat 5,
              Genre = Some ''Dystopia''\<rparr>],
          reading_csv = [dune_entry\<lparr>rTitle := PyStr ''1984''\<rparr>],
          calls = [Add_Reading_Entry, Update_Reading_Count ''1984'',
                   Update_Book_Rating ''1984'', Sort_Values, To_Csv]\<rparr>"
proof -
  have m: "py_int example_lib (ans_mode orwell_session) = Inr 1"
    by (simp add: orwell_session_def example_int_1)
  have a: "ans_book orwell_session = orwell_answers" "ans_book2 orwell_session = orwell_answers"
    "ans_titles orwell_session = [''1984'']"
    by (simp_all add: orwell_session_def)
  have d: "add_reading_entry example_lib [] ''1984'' (ans_add orwell_session) =
             Inr [(0, dune_entry\<lparr>rTitle := PyStr ''1984''\<rparr>)]"
    by (simp add: add_reading_entry_def orwell_session_def example_date_start
        example_date_finish example_int_5 read_csv_def to_csv_def update_reading_time_def
        dune_entry_def)
  have c: "update_reading_count [(0, dune_entry\<lparr>rTitle := PyStr ''1984''\<rparr>)] [] ''1984''
             orwell_answers =
           [\<lparr>Title = PyStr ''1984'', Author = Some ''George Orwell'',
              Author_FN = Some ''George'', Author_MN = Some '''', Author_LN = Some ''Orwell'',
              Length = PyStr ''328'', Times_Read = PyInt 1, Rating = PyStr '''',
              Genre = Some ''Dystopia''\<rparr>]"
    by (simp add: update_reading_count_def title_in_def add_new_book_def loc_title_def
        loc_mask_def dune_entry_def orwell_answers_def generate_full_author_def)
  have rr: "reread_books example_lib
           [\<lparr>Title = PyStr ''1984'', Author = Some ''George Orwell'',
              Author_FN = Some ''George'', Author_MN = Some '''', Author_LN = Some ''Orwell'',
              Length = PyStr ''328'', Times_Read = PyInt 1, Rating = PyStr '''',
              Genre = Some ''Dystopia''\<rparr>] =
           [\<lparr>Title = PyInt 1984, Author = Some ''George Orwell'',
              Author_FN = Some ''George'', Author_MN = None, Author_LN = Some ''Orwell'',
              Length = PyInt 328, Times_Read = PyInt 1, Rating = NaN,
              Genre = Some ''Dystopia''\<rparr>]"
    by (simp add: example_lib_def example_reread_books_def numeric_text_def retype_def
        blank_def digit_def)
  have b: "update_book_rating example_lib [(0, dune_entry\<lparr>rTitle := PyStr ''1984''\<rparr>)]
           [\<lparr>Title = PyInt 1984, Author = Some ''George Orwell'',
              Author_FN = Some ''George'', Author_MN = None, Author_LN = Some ''Orwell'',
              Length = PyInt 328, Times_Read = PyInt 1, Rating = NaN,
              Genre = Some ''Dystopia''\<rparr>] ''1984'' orwell_answers =
            [\<lparr>Title = PyInt 1984, Author = Some ''George Orwell'',
              Author_FN = Some ''George'', Author_MN = None, Author_LN = Some ''Orwell'',
              Length = PyInt 328, Times_Read = PyInt 1, Rating = NaN,
              Genre = Some ''Dystopia''\<rparr>,
             \<lparr>Title = PyStr ''1984'', Author = Some ''George Orwell'',
              Author_FN = Some ''George'', Author_MN = Some '''', Author_LN = Some ''Orwell'',
              Length = PyStr ''328'', Times_Read = NaN, Rating = PyFloat 5,
              Genre = Some ''Dystopia''\<rparr>]"
    by (simp add: update_book_rating_def title_in_def add_new_book_def loc_title_def
        loc_mask_def mean_skipna_def dune_entry_def orwell_answers_def
        generate_full_author_def example_round_5)
  show ?thesis
    unfolding update_reading_db_def Let_def update_reading_count_file_def
      update_book_rating_file_def called_def
    by (simp add: m a example_reread_reading_nil example_reread_books_nil read_csv_def
        d c rr b sort_reading_def to_csv_def)
qed

text \<open>
  Claim C7 asks that the two synchronizer calls be for the title the mutation affects.
  The session makes them for the title of its prompt, and the edit menu offers the title
  itself. Started on a log and a catalog that hold ``Dune'' (read once, rated 5), with
  the answers 2 (edit), ``Dune'', 0 (the index), 1 (the title) and ``Dune Messiah'', the
  session synchronizes ``Dune'' and writes a log whose only entry, finished, is for
  ``Dune Messiah'': the catalog written has no entry for that title, and ``Dune'' stays
  in it, read 0 times.
\<close>

theorem update_reading_db_retitle_drift:
  "update_reading_db example_lib
     \<lparr>books_csv = [dune_book], reading_csv = [dune_entry], calls = []\<rparr> retitle_session =
     Inr \<lparr>books_csv = [dune_book\<lparr>Times_Read := PyInt 0, Rating := NaN\<rparr>],
          reading_csv = [dune_entry\<lparr>rTitle := PyStr ''Dune Messiah''\<rparr>],
          calls = [Edit_Reading_Entry, Update_Reading_Count ''Dune'',
                   Update_Book_Rating ''Dune'', Sort_Values, To_Csv]\<rparr> \<and>
   finished_count [dune_entry\<lparr>rTitle := PyStr ''Dune Messiah''\<rparr>] ''Dune Messiah'' = 1 \<and>
   \<not> title_in ''Dune Messiah'' [dune_book\<lparr>Times_Read := PyInt 0, Rating := NaN\<rparr>]"
proof -
  have m: "py_int example_lib (ans_mode retitle_session) = Inr 2"
    by (simp add: retitle_session_def example_int_2)
  have t: "ans_titles retitle_session = [''Dune'']"
    "ans_book retitle_session = dune_answers" "ans_book2 retitle_session = dune_answers"
    by (simp_all add: retitle_session_def)
  have r: "read_csv [dune_entry] = [(0, dune_entry)]"
    by (simp add: read_csv_def)
  have p: "rTitle dune_entry = PyStr ''Dune''"
    by (simp add: dune_entry_def)
  have e: "edit_reading_entry example_lib [(0, dune_entry)] ''Dune'' (ans_edit retitle_session)
             = Inr [(0, dune_entry\<lparr>rTitle := PyStr ''Dune Messiah''\<rparr>)]"
    by (simp add: edit_reading_entry_def retitle_session_def example_int_0 example_int_1
        prop_dict_reading_def loc_set_def loc_rows_def dune_entry_def update_reading_time_def)
  have c: "update_reading_count [(0, dune_entry\<lparr>rTitle := PyStr ''Dune Messiah''\<rparr>)] [dune_book]
             ''Dune'' dune_answers = [dune_book\<lparr>Times_Read := PyInt 0\<rparr>]"
    by (simp add: update_reading_count_def title_in_def loc_title_def loc_mask_def
        dune_entry_def dune_book_def)
  have rr: "reread_books example_lib [dune_book\<lparr>Times_Read := PyInt 0\<rparr>] =
              [dune_book\<lparr>Times_Read := PyInt 0\<rparr>]"
    by (simp add: example_lib_def example_reread_books_def dune_book_def numeric_text_def
        retype_def blank_def digit_def)
  have b: "update_book_rating example_lib [(0, dune_entry\<lparr>rTitle := PyStr ''Dune Messiah''\<rparr>)]
             [dune_book\<lparr>Times_Read := PyInt 0\<rparr>] ''Dune'' dune_answers =
           [dune_book\<lparr>Times_Read := PyInt 0, Rating := NaN\<rparr>]"
    by (simp add: update_book_rating_def title_in_def loc_title_def loc_mask_def
        mean_skipna_def dune_entry_def dune_book_def)
  have run: "update_reading_db example_lib
     \<lparr>books_csv = [dune_book], reading_csv = [dune_entry], calls = []\<rparr> retitle_session =
     Inr \<lparr>books_csv = [dune_book\<lparr>Times_Read := PyInt 0, Rating := NaN\<rparr>],
          reading_csv = [dune_entry\<lparr>rTitle := PyStr ''Dune Messiah''\<rparr>],
          calls = [Edit_Reading_Entry, Update_Reading_Count ''Dune'',
                   Update_Book_Rating ''Dune'', Sort_Values, To_Csv]\<rparr>"
    unfolding update_reading_db_def Let_def update_reading_count_file_def
      update_book_rating_file_def called_def
    by (simp add: m t example_reread_reading_dune r p e example_reread_books_dune c rr b
        sort_reading_def to_csv_def)
  have f: "finished_count [dune_entry\<lparr>rTitle := PyStr ''Dune Messiah''\<rparr>] ''Dune Messiah'' = 1"
    by (simp add: finished_count_def dune_entry_def)
  have n: "\<not> title_in ''Dune Messiah'' [dune_book\<lparr>Times_Read := PyInt 0, Rating := NaN\<rparr>]"
    by (simp add: title_in_def dune_book_def)
  from run f n show ?thesis by simp
qed

end
